theory Spec2Isabelle
  imports Main "HOL-Library.Multiset"
begin

section \<open>The chat server (server/main.go)\<close>

subsection \<open>Constants and formatting helpers\<close>

definition bilalUser :: string where "bilalUser = ''bilal''"
definition zohaibUser :: string where "zohaibUser = ''zohaib''"

definition esc :: char where "esc = CHR 0x1B"

definition reset :: string where "reset = esc # ''[0m''"
definition green :: string where "green = esc # ''[32m''"
definition cyan :: string where "cyan = esc # ''[36m''"
definition yellow :: string where "yellow = esc # ''[33m''"

definition crlf :: string where "crlf = [CHR 0x0D, CHR 0x0A]"

text \<open>Decimal rendering of a natural number, as the verb \<^verbatim>\<open>%d\<close> of fmt.Sprintf prints a
  non-negative count.\<close>

definition digit :: "nat \<Rightarrow> char" where
  "digit n = ''0123456789'' ! (n mod 10)"

function itoa :: "nat \<Rightarrow> string" where
  "itoa n = (if n < 10 then [digit n] else itoa (n div 10) @ [digit n])"
  by pat_completeness auto
termination
  by (relation "measure (\<lambda>n. n)") auto

declare itoa.simps [simp del]

text \<open>A clock value is a number of seconds; \<^verbatim>\<open>strftime('%H:%M:%S', ts)\<close> and
  \<^verbatim>\<open>time.Now().Format("15:04:05")\<close> print its time of day.\<close>

definition two :: "nat \<Rightarrow> string" where
  "two n = [digit (n div 10), digit n]"

definition hhmmss :: "nat \<Rightarrow> string" where
  "hhmmss t = two (t div 3600 mod 24) @ '':'' @ two (t div 60 mod 60) @ '':'' @ two (t mod 60)"

subsection \<open>Data model\<close>

text \<open>A network connection is identified by a number. The buffered writer \<^verbatim>\<open>w\<close> of a
  \<^verbatim>\<open>userConn\<close> wraps the same connection and is flushed after every write, so it
  is identified with the connection.\<close>

type_synonym connId = nat

record userConn =
  name :: string
  conn :: connId

text \<open>A row of the table \<^verbatim>\<open>messages\<close>.\<close>

record message =
  m_id :: nat
  m_sender :: string
  m_recipient :: string
  m_text :: string
  m_ts :: nat
  m_delivered :: bool

text \<open>The server state: the table of messages in insertion order, the registry
  \<^verbatim>\<open>clients\<close>, the pending video requests (callee to requester), and the network as the
  server sees it: which connections have been closed, and what has been written to each
  connection.\<close>

record chatServer =
  db :: "message list"
  clients :: "string \<rightharpoonup> userConn"
  videoReq :: "string \<rightharpoonup> string"
  tcpClosed :: "connId set"
  tcpOut :: "connId \<Rightarrow> string list"

text \<open>What the environment decides in a call: whether each SQL statement succeeds, the
  clock, the variable \<^verbatim>\<open>VIDEO_BASE_URL\<close>, and the raw values of the random source.\<close>

record env =
  insertOk :: bool
  updateOk :: bool
  queryOk :: bool
  now :: nat
  videoBaseUrl :: string
  rnd :: "nat \<Rightarrow> nat"

datatype error = DbError | PeerOffline

subsection \<open>Writing to a connection\<close>

text \<open>\<^verbatim>\<open>conn.Close()\<close>.\<close>

definition closeConn :: "connId \<Rightarrow> chatServer \<Rightarrow> chatServer" where
  "closeConn c st = st\<lparr>tcpClosed := insert c (tcpClosed st)\<rparr>"

text \<open>One \<^verbatim>\<open>WriteString\<close> followed by \<^verbatim>\<open>Flush\<close>; both errors are dropped by the
  source, so a write to a closed connection delivers nothing and is not reported.\<close>

definition writeRaw :: "connId \<Rightarrow> string \<Rightarrow> chatServer \<Rightarrow> chatServer" where
  "writeRaw c s st =
     (if c \<in> tcpClosed st then st
      else st\<lparr>tcpOut := (tcpOut st)(c := tcpOut st c @ [s])\<rparr>)"

text \<open>The bytes of one line: \<^verbatim>\<open>color + s + reset + "\r\n"\<close>.\<close>

definition lineBytes :: "string \<Rightarrow> string \<Rightarrow> string" where
  "lineBytes color s = color @ s @ reset @ crlf"

definition writeLine :: "connId \<Rightarrow> string \<Rightarrow> string \<Rightarrow> chatServer \<Rightarrow> chatServer" where
  "writeLine w color s st = writeRaw w (lineBytes color s) st"

subsection \<open>Presence registry\<close>

definition attach :: "string \<Rightarrow> connId \<Rightarrow> chatServer \<Rightarrow> chatServer" where
  "attach username c st =
     (let st1 = (case clients st username of
                   None \<Rightarrow> st
                 | Some old \<Rightarrow> closeConn (conn old) st)
      in st1\<lparr>clients := (clients st1)(username \<mapsto> \<lparr>name = username, conn = c\<rparr>)\<rparr>)"

text \<open>\<^verbatim>\<open>detach\<close> receives the user name only. (The repository holds a second text of the
  chat server, without the table of messages and the video requests: its \<^verbatim>\<open>attach\<close> is
  the same, and its \<^verbatim>\<open>detach\<close> deletes the registry entry in the same way.)\<close>

definition detach :: "string \<Rightarrow> chatServer \<Rightarrow> chatServer" where
  "detach username st =
     st\<lparr>clients := (clients st)(username := None),
        videoReq := (videoReq st)(username := None)\<rparr>"

definition peerOf :: "string \<Rightarrow> string" where
  "peerOf u = (if u = bilalUser then zohaibUser else bilalUser)"

subsection \<open>The durable queue: SQL statements on the table of messages\<close>

text \<open>\<^verbatim>\<open>id INTEGER PRIMARY KEY AUTOINCREMENT\<close>: a new row gets an id above every id in
  the table (rows are never deleted).\<close>

definition freshId :: "message list \<Rightarrow> nat" where
  "freshId rows = Suc (fold max (map m_id rows) 0)"

text \<open>\<^verbatim>\<open>INSERT INTO messages(sender, recipient, text, delivered) VALUES(?,?,?,0)\<close>, with
  the column \<^verbatim>\<open>ts\<close> defaulting to the current time; followed by \<^verbatim>\<open>LastInsertId\<close>.\<close>

definition newRow :: "env \<Rightarrow> string \<Rightarrow> string \<Rightarrow> string \<Rightarrow> message list \<Rightarrow> message" where
  "newRow e from peer txt rows =
     \<lparr>m_id = freshId rows, m_sender = from, m_recipient = peer,
      m_text = txt, m_ts = now e, m_delivered = False\<rparr>"

definition insertMessage ::
  "env \<Rightarrow> string \<Rightarrow> string \<Rightarrow> string \<Rightarrow> message list \<Rightarrow> (nat \<times> message list) option" where
  "insertMessage e from peer txt rows =
     (if insertOk e
      then Some (freshId rows, rows @ [newRow e from peer txt rows])
      else None)"

text \<open>\<^verbatim>\<open>UPDATE messages SET delivered=1 WHERE id IN (...)\<close>; the source drops its error, so
  a failed statement leaves the table as it was.\<close>

definition markDelivered :: "env \<Rightarrow> nat list \<Rightarrow> message list \<Rightarrow> message list" where
  "markDelivered e ids rows =
     (if updateOk e
      then map (\<lambda>m. if m_id m \<in> set ids then m\<lparr>m_delivered := True\<rparr> else m) rows
      else rows)"

text \<open>\<^verbatim>\<open>SELECT ... FROM messages WHERE recipient=? AND delivered=0 ORDER BY ts ASC\<close>;
  rows with equal timestamps stay in insertion order.\<close>

definition fetchUndelivered :: "string \<Rightarrow> message list \<Rightarrow> message list" where
  "fetchUndelivered toUser rows =
     sort_key m_ts (filter (\<lambda>m. m_recipient m = toUser \<and> \<not> m_delivered m) rows)"

subsection \<open>Direct message relay\<close>

definition liveLine :: "string \<Rightarrow> string \<Rightarrow> string \<Rightarrow> string" where
  "liveLine ts from txt = ''['' @ ts @ ''] '' @ from @ '': '' @ txt"

definition sendToPeer :: "env \<Rightarrow> string \<Rightarrow> string \<Rightarrow> chatServer \<Rightarrow> error option \<times> chatServer" where
  "sendToPeer e from txt st =
     (let peer = peerOf from in
      case insertMessage e from peer txt (db st) of
        None \<Rightarrow> (Some DbError, st)
      | Some (i, rows) \<Rightarrow>
          (let st1 = st\<lparr>db := rows\<rparr> in
           case clients st1 peer of
             None \<Rightarrow> (Some PeerOffline, st1)
           | Some dst \<Rightarrow>
               (let color = (if from = zohaibUser then cyan else green);
                    st2 = writeLine (conn dst) color (liveLine (hhmmss (now e)) from txt) st1
                in (None, st2\<lparr>db := markDelivered e [i] (db st2)\<rparr>))))"

definition missedLine :: "message \<Rightarrow> string" where
  "missedLine m = ''[missed '' @ hhmmss (m_ts m) @ ''] '' @ m_sender m @ '': '' @ m_text m"

text \<open>The bytes written for one fetched row.\<close>

definition missedBytes :: "message \<Rightarrow> string" where
  "missedBytes m = lineBytes (if m_sender m = zohaibUser then cyan else green) (missedLine m)"

text \<open>The loop over the fetched rows: one line per row, in the order of the rows, while
  the ids are collected and counted.\<close>

fun scanRows ::
  "connId \<Rightarrow> message list \<Rightarrow> chatServer \<times> nat list \<times> nat \<Rightarrow> chatServer \<times> nat list \<times> nat" where
  "scanRows w [] acc = acc"
| "scanRows w (m # ms) (st, ids, cnt) =
     scanRows w ms
       (writeLine w (if m_sender m = zohaibUser then cyan else green) (missedLine m) st,
        ids @ [m_id m], cnt + 1)"

definition summaryLine :: "nat \<Rightarrow> string" where
  "summaryLine n = ''You had '' @ itoa n @ '' offline message(s).''"

definition deliverUndelivered :: "env \<Rightarrow> string \<Rightarrow> chatServer \<Rightarrow> chatServer" where
  "deliverUndelivered e toUser st =
     (if \<not> queryOk e then st
      else
        (let rows = fetchUndelivered toUser (db st) in
         case clients st toUser of
           None \<Rightarrow> st
         | Some uc \<Rightarrow>
             (case scanRows (conn uc) rows (st, [], 0) of
                (st1, ids, cnt) \<Rightarrow>
                  if cnt > 0
                  then (let st2 = writeLine (conn uc) yellow (summaryLine cnt) st1
                        in if length ids > 0
                           then st2\<lparr>db := markDelivered e ids (db st2)\<rparr>
                           else st2)
                  else st1)))"

text \<open>The state in which \<^verbatim>\<open>main\<close> starts serving, on an empty table.\<close>

definition initServer :: chatServer where
  "initServer = \<lparr>db = [], clients = Map.empty, videoReq = Map.empty,
                  tcpClosed = {}, tcpOut = (\<lambda>_. [])\<rparr>"

subsection \<open>Call handshake\<close>

definition handleVideoRequest :: "string \<Rightarrow> chatServer \<Rightarrow> chatServer" where
  "handleVideoRequest requester st =
     (let callee = peerOf requester in
      case clients st callee of
        None \<Rightarrow>
          (case clients st requester of
             None \<Rightarrow> st
           | Some reqConn \<Rightarrow> writeLine (conn reqConn) yellow ''Peer offline; cannot start video.'' st)
      | Some calleeConn \<Rightarrow>
          writeLine (conn calleeConn) yellow
            (requester @ '' requests your camera. Type /acceptvideo or /declinevideo'')
            (st\<lparr>videoReq := (videoReq st)(callee \<mapsto> requester)\<rparr>))"

definition letters :: string where
  "letters = ''abcdefghijklmnopqrstuvwxyzABCDEFGHIJKLMNOPQRSTUVWXYZ0123456789''"

text \<open>ASCII letters and digits.\<close>

definition alnum :: "char \<Rightarrow> bool" where
  "alnum c = (let n = (of_char c :: nat)
              in (48 \<le> n \<and> n \<le> 57) \<or> (65 \<le> n \<and> n \<le> 90) \<or> (97 \<le> n \<and> n \<le> 122))"

text \<open>\<^verbatim>\<open>rand.Intn(n)\<close> on a raw random value.\<close>

definition Intn :: "nat \<Rightarrow> nat \<Rightarrow> nat" where
  "Intn raw n = raw mod n"

text \<open>The session id: twelve bytes, byte \<open>i\<close> chosen by the \<open>i\<close>-th draw.\<close>

definition generateSID :: "(nat \<Rightarrow> nat) \<Rightarrow> string" where
  "generateSID r = map (\<lambda>i. letters ! Intn (r i) (length letters)) [0..<12]"

definition senderURL :: "string \<Rightarrow> string \<Rightarrow> string" where
  "senderURL base sid = base @ ''/v/send?sid='' @ sid"

definition viewerURL :: "string \<Rightarrow> string \<Rightarrow> string" where
  "viewerURL base sid = base @ ''/v/view?sid='' @ sid"

text \<open>The base address: the variable \<^verbatim>\<open>VIDEO_BASE_URL\<close>, or the default when it is
  empty.\<close>

definition baseUrl :: "env \<Rightarrow> string" where
  "baseUrl e = (if videoBaseUrl e = [] then ''http://127.0.0.1:5001'' else videoBaseUrl e)"

definition noPending :: "string \<Rightarrow> chatServer \<Rightarrow> chatServer" where
  "noPending callee st =
     (case clients st callee of
        None \<Rightarrow> st
      | Some c \<Rightarrow> writeLine (conn c) yellow ''No pending video request.'' st)"

definition handleVideoAccept :: "env \<Rightarrow> string \<Rightarrow> chatServer \<Rightarrow> chatServer" where
  "handleVideoAccept e callee st =
     (case videoReq st callee of
        None \<Rightarrow> noPending callee st
      | Some requester \<Rightarrow>
          (let st1 = st\<lparr>videoReq := (videoReq st)(callee := None)\<rparr>;
               sid = generateSID (rnd e);
               base = baseUrl e;
               st2 = (case clients st1 callee of
                        None \<Rightarrow> st1
                      | Some c \<Rightarrow>
                          writeLine (conn c) yellow (senderURL base sid)
                            (writeLine (conn c) yellow
                               ''Video approved. Open this URL to share your camera:'' st1))
           in case clients st2 requester of
                None \<Rightarrow> st2
              | Some r \<Rightarrow>
                  writeLine (conn r) yellow (viewerURL base sid)
                    (writeLine (conn r) yellow ''Open this URL to view the camera:'' st2)))"

definition handleVideoDecline :: "string \<Rightarrow> chatServer \<Rightarrow> chatServer" where
  "handleVideoDecline callee st =
     (case videoReq st callee of
        None \<Rightarrow> noPending callee st
      | Some requester \<Rightarrow>
          (let st1 = st\<lparr>videoReq := (videoReq st)(callee := None)\<rparr>;
               st2 = (case clients st1 requester of
                        None \<Rightarrow> st1
                      | Some r \<Rightarrow>
                          writeLine (conn r) yellow (callee @ '' declined your video request.'') st1)
           in case clients st2 callee of
                None \<Rightarrow> st2
              | Some c \<Rightarrow> writeLine (conn c) yellow ''Declined.'' st2))"

subsection \<open>Runs of the server\<close>

text \<open>The calls that the connection handlers make on the shared server, any other write
  to a connection (prompts, notices, the lines of \<^verbatim>\<open>printHistory\<close> and of
  \<^verbatim>\<open>systemBroadcast\<close>), and the remote side of a connection going away. A run is a
  sequence of them, each executed atomically in the order in which they reach the server.\<close>

datatype call =
    Attach string connId
  | Detach string
  | SendToPeer env string string
  | DeliverUndelivered env string
  | VideoRequest string
  | VideoAccept env string
  | VideoDecline string
  | Output connId string
  | ConnLost connId

fun exec :: "call \<Rightarrow> chatServer \<Rightarrow> chatServer" where
  "exec (Attach u c) st = attach u c st"
| "exec (Detach u) st = detach u st"
| "exec (SendToPeer e from txt) st = snd (sendToPeer e from txt st)"
| "exec (DeliverUndelivered e u) st = deliverUndelivered e u st"
| "exec (VideoRequest u) st = handleVideoRequest u st"
| "exec (VideoAccept e u) st = handleVideoAccept e u st"
| "exec (VideoDecline u) st = handleVideoDecline u st"
| "exec (Output c s) st = writeRaw c s st"
| "exec (ConnLost c) st = closeConn c st"

definition run :: "call list \<Rightarrow> chatServer \<Rightarrow> chatServer" where
  "run cs st = fold exec cs st"

text \<open>A message id is settled in a table when a row carries it and every row that carries it
  is flagged delivered.\<close>

definition settled :: "nat \<Rightarrow> message list \<Rightarrow> bool" where
  "settled i rows = ((\<exists>m\<in>set rows. m_id m = i) \<and> (\<forall>m\<in>set rows. m_id m = i \<longrightarrow> m_delivered m))"

subsection \<open>Sample inputs\<close>

definition env0 :: env where
  "env0 = \<lparr>insertOk = True, updateOk = True, queryOk = True, now = 3661,
            videoBaseUrl = [], rnd = (\<lambda>i. i)\<rparr>"

text \<open>Both users logged in: bilal on connection 1, zohaib on connection 2.\<close>

definition bothOnline :: chatServer where
  "bothOnline = attach zohaibUser 2 (attach bilalUser 1 initServer)"

text \<open>Only bilal logged in, on connection 1.\<close>

definition bilalOnly :: chatServer where
  "bilalOnly = attach bilalUser 1 initServer"

text \<open>bilal, alone, has sent "hi"; then zohaib has logged in on connection 2.\<close>

definition backlogFor2 :: chatServer where
  "backlogFor2 = attach zohaibUser 2 (snd (sendToPeer env0 bilalUser ''hi'' bilalOnly))"

section \<open>The signaling server (video)\<close>

subsection \<open>Data model\<close>

text \<open>A signaling frame. A field that is absent from the JSON object is left at its
  zero value by the decoder: the empty string, and for \<^verbatim>\<open>candidate\<close> the empty raw
  message.\<close>

record msg =
  Type :: string
  SDP :: string
  Cand :: string

text \<open>The first frame of a connection.\<close>

record hello =
  Role :: string
  SID :: string

text \<open>What a read from a websocket gives: a failure of the read itself, bytes that are not
  the JSON of the expected shape, or the decoded value.\<close>

datatype 'a inbound = ReadError | Unparseable | Parsed 'a

record endpoint =
  sender :: "connId option"
  viewer :: "connId option"
  offer :: "string option"
  answer :: "string option"
  iceFromSender :: "string list"
  iceFromViewer :: "string list"

record server =
  sessions :: "string \<rightharpoonup> endpoint"

text \<open>The websockets as the server sees them: which ones have been closed, and the frames
  written to each.\<close>

record wsnet =
  wsClosed :: "connId set"
  wsOut :: "connId \<Rightarrow> msg list"

definition closeWS :: "connId \<Rightarrow> wsnet \<Rightarrow> wsnet" where
  "closeWS c net = net\<lparr>wsClosed := insert c (wsClosed net)\<rparr>"

text \<open>\<^verbatim>\<open>WriteJSON\<close>; the source drops its error, so a frame written to a closed websocket
  is lost.\<close>

definition WriteJSON :: "connId \<Rightarrow> msg \<Rightarrow> wsnet \<Rightarrow> wsnet" where
  "WriteJSON c m net =
     (if c \<in> wsClosed net then net
      else net\<lparr>wsOut := (wsOut net)(c := wsOut net c @ [m])\<rparr>)"

definition emptyEndpoint :: endpoint where
  "emptyEndpoint = \<lparr>sender = None, viewer = None, offer = None, answer = None,
                     iceFromSender = [], iceFromViewer = []\<rparr>"

subsection \<open>Attaching (\<^verbatim>\<open>ws\<close>, up to the start of the relay loop)\<close>

definition getOrCreate :: "string \<Rightarrow> server \<Rightarrow> endpoint \<times> server" where
  "getOrCreate sid srv =
     (case sessions srv sid of
        None \<Rightarrow> (emptyEndpoint, srv\<lparr>sessions := (sessions srv)(sid \<mapsto> emptyEndpoint)\<rparr>)
      | Some ep \<Rightarrow> (ep, srv))"

definition offerMsg :: "string \<Rightarrow> msg" where
  "offerMsg s = \<lparr>Type = ''offer'', SDP = s, Cand = []\<rparr>"

definition answerMsg :: "string \<Rightarrow> msg" where
  "answerMsg s = \<lparr>Type = ''answer'', SDP = s, Cand = []\<rparr>"

definition iceMsg :: "string \<Rightarrow> msg" where
  "iceMsg cand = \<lparr>Type = ''ice'', SDP = [], Cand = cand\<rparr>"

text \<open>The loop \<^verbatim>\<open>for _, cand := range ...\<close> that writes the queued candidates.\<close>

fun flushIce :: "connId \<Rightarrow> string list \<Rightarrow> wsnet \<Rightarrow> wsnet" where
  "flushIce c [] net = net"
| "flushIce c (cand # cands) net = flushIce c cands (WriteJSON c (iceMsg cand) net)"

text \<open>The block under \<^verbatim>\<open>ep.mu\<close> that attaches connection \<open>c\<close> in a role and flushes
  what was queued for that role.\<close>

definition attachRole :: "string \<Rightarrow> connId \<Rightarrow> endpoint \<times> wsnet \<Rightarrow> endpoint \<times> wsnet" where
  "attachRole role c = (\<lambda>(ep, net).
     if role = ''sender'' then
       (let net1 = (case sender ep of None \<Rightarrow> net | Some old \<Rightarrow> closeWS old net);
            ep1 = ep\<lparr>sender := Some c\<rparr>;
            (ep2, net2) = (case answer ep1 of
                             None \<Rightarrow> (ep1, net1)
                           | Some a \<Rightarrow> (ep1\<lparr>answer := None\<rparr>, WriteJSON c (answerMsg a) net1));
            net3 = flushIce c (iceFromViewer ep2) net2
        in (ep2\<lparr>iceFromViewer := []\<rparr>, net3))
     else
       (let net1 = (case viewer ep of None \<Rightarrow> net | Some old \<Rightarrow> closeWS old net);
            ep1 = ep\<lparr>viewer := Some c\<rparr>;
            (ep2, net2) = (case offer ep1 of
                             None \<Rightarrow> (ep1, net1)
                           | Some a \<Rightarrow> (ep1\<lparr>offer := None\<rparr>, WriteJSON c (offerMsg a) net1));
            net3 = flushIce c (iceFromSender ep2) net2
        in (ep2\<lparr>iceFromSender := []\<rparr>, net3)))"

text \<open>The handshake on a new websocket \<open>c\<close>, given what the first read returns. The result
  tells whether a relay loop is started, and with which role and session id.\<close>

definition ws ::
  "connId \<Rightarrow> hello inbound \<Rightarrow> server \<times> wsnet \<Rightarrow> (string \<times> string) option \<times> server \<times> wsnet" where
  "ws c first = (\<lambda>(srv, net).
     case first of
       ReadError \<Rightarrow> (None, srv, closeWS c net)
     | Unparseable \<Rightarrow> (None, srv, closeWS c net)
     | Parsed hi \<Rightarrow>
         if (Role hi \<noteq> ''sender'' \<and> Role hi \<noteq> ''viewer'') \<or> SID hi = []
         then (None, srv, closeWS c net)
         else (case getOrCreate (SID hi) srv of
                 (ep, srv1) \<Rightarrow>
                   (case attachRole (Role hi) c (ep, net) of
                      (ep', net') \<Rightarrow>
                        (Some (Role hi, SID hi),
                         srv1\<lparr>sessions := (sessions srv1)(SID hi \<mapsto> ep')\<rparr>, net'))))"

subsection \<open>The relay loop of one connection\<close>

text \<open>One decoded frame, handled under \<^verbatim>\<open>ep.mu\<close>.\<close>

definition route :: "string \<Rightarrow> msg \<Rightarrow> endpoint \<times> wsnet \<Rightarrow> endpoint \<times> wsnet" where
  "route role m = (\<lambda>(ep, net).
     let dst = (if role = ''sender'' then viewer ep else sender ep) in
     if Type m = ''offer'' then
       (if role = ''sender''
        then (case dst of
                Some d \<Rightarrow> (ep, WriteJSON d m net)
              | None \<Rightarrow> (ep\<lparr>offer := Some (SDP m)\<rparr>, net))
        else (ep, net))
     else if Type m = ''answer'' then
       (if role = ''viewer''
        then (case dst of
                Some d \<Rightarrow> (ep, WriteJSON d m net)
              | None \<Rightarrow> (ep\<lparr>answer := Some (SDP m)\<rparr>, net))
        else (ep, net))
     else if Type m = ''ice'' then
       (case dst of
          Some d \<Rightarrow> (ep, WriteJSON d m net)
        | None \<Rightarrow>
            if role = ''sender''
            then (ep\<lparr>iceFromSender := iceFromSender ep @ [Cand m]\<rparr>, net)
            else (ep\<lparr>iceFromViewer := iceFromViewer ep @ [Cand m]\<rparr>, net))
     else (ep, net))"

text \<open>The deferred function of the loop: the role slot is cleared only when it still holds
  this connection, and the connection is closed.\<close>

definition detachRole :: "string \<Rightarrow> connId \<Rightarrow> endpoint \<times> wsnet \<Rightarrow> endpoint \<times> wsnet" where
  "detachRole role c = (\<lambda>(ep, net).
     let ep1 = (if role = ''sender'' \<and> sender ep = Some c then ep\<lparr>sender := None\<rparr> else ep);
         ep2 = (if role = ''viewer'' \<and> viewer ep1 = Some c then ep1\<lparr>viewer := None\<rparr> else ep1)
     in (ep2, closeWS c net))"

text \<open>The loop on the frames that connection \<open>c\<close> receives, in order. \<^verbatim>\<open>ReadJSON\<close> fails on
  a failed read and on bytes that do not decode alike, and the loop ends through the
  deferred function. When the frames received so far are used up the loop is waiting in
  its next read, with the connection still attached.\<close>

fun relay :: "string \<Rightarrow> connId \<Rightarrow> msg inbound list \<Rightarrow> endpoint \<times> wsnet \<Rightarrow> endpoint \<times> wsnet" where
  "relay role c [] s = s"
| "relay role c (Parsed m # fs) s = relay role c fs (route role m s)"
| "relay role c (ReadError # fs) s = detachRole role c s"
| "relay role c (Unparseable # fs) s = detachRole role c s"

subsection \<open>The relay of \<^verbatim>\<open>video/singnaling.go\<close>\<close>

text \<open>The file \<^verbatim>\<open>video/singnaling.go\<close> holds another text of \<^verbatim>\<open>ws\<close>, without the
  imports and the declarations of \<^verbatim>\<open>endpoint\<close> and \<^verbatim>\<open>hello\<close>: its attach block
  flushes nothing, and its loop skips bytes that do not decode and forwards every decoded
  frame as received when the opposite role is attached.\<close>

definition attachPlain :: "string \<Rightarrow> connId \<Rightarrow> endpoint \<times> wsnet \<Rightarrow> endpoint \<times> wsnet" where
  "attachPlain role c = (\<lambda>(ep, net).
     if role = ''sender''
     then (ep\<lparr>sender := Some c\<rparr>, case sender ep of None \<Rightarrow> net | Some old \<Rightarrow> closeWS old net)
     else (ep\<lparr>viewer := Some c\<rparr>, case viewer ep of None \<Rightarrow> net | Some old \<Rightarrow> closeWS old net))"

definition forwardPlain :: "string \<Rightarrow> msg \<Rightarrow> endpoint \<times> wsnet \<Rightarrow> endpoint \<times> wsnet" where
  "forwardPlain role m = (\<lambda>(ep, net).
     case (if role = ''sender'' then viewer ep else sender ep) of
       None \<Rightarrow> (ep, net)
     | Some d \<Rightarrow> (ep, WriteJSON d m net))"

fun relayPlain :: "string \<Rightarrow> connId \<Rightarrow> msg inbound list \<Rightarrow> endpoint \<times> wsnet \<Rightarrow> endpoint \<times> wsnet" where
  "relayPlain role c [] s = s"
| "relayPlain role c (ReadError # fs) s = detachRole role c s"
| "relayPlain role c (Unparseable # fs) s = relayPlain role c fs s"
| "relayPlain role c (Parsed m # fs) s = relayPlain role c fs (forwardPlain role m s)"

text \<open>The value of a queued offer or answer slot after the frames \<open>ms\<close> of type \<open>ty\<close>
  have been queued one after the other on the slot \<open>old\<close>.\<close>

definition latest :: "string \<Rightarrow> msg list \<Rightarrow> string option \<Rightarrow> string option" where
  "latest ty ms old = fold (\<lambda>m acc. if Type m = ty then Some (SDP m) else acc) ms old"

subsection \<open>Sample inputs\<close>

text \<open>A session in which an offer, an answer and candidates of both directions are queued
  and nobody is attached.\<close>

definition queuedBoth :: endpoint where
  "queuedBoth = \<lparr>sender = None, viewer = None, offer = Some ''o1'', answer = Some ''a1'',
                  iceFromSender = [''s1'', ''s2''], iceFromViewer = [''v1'']\<rparr>"

definition srv0 :: server where
  "srv0 = \<lparr>sessions = Map.empty\<rparr>"

definition net0 :: wsnet where
  "net0 = \<lparr>wsClosed = {}, wsOut = (\<lambda>_. [])\<rparr>"

text \<open>A session in which only the sender is attached, on websocket 1.\<close>

definition senderOnly :: endpoint where
  "senderOnly = emptyEndpoint\<lparr>sender := Some 1\<rparr>"

section \<open>Properties of the chat server\<close>

subsection \<open>Writes and the durable queue\<close>

lemma writeRaw_fields [simp]:
  "db (writeRaw c s st) = db st"
  "clients (writeRaw c s st) = clients st"
  "videoReq (writeRaw c s st) = videoReq st"
  "tcpClosed (writeRaw c s st) = tcpClosed st"
  by (simp_all add: writeRaw_def)

lemma writeRaw_out:
  "tcpOut (writeRaw c s st) = (if c \<in> tcpClosed st then tcpOut st else (tcpOut st)(c := tcpOut st c @ [s]))"
  by (simp add: writeRaw_def)

lemma writeLine_fields [simp]:
  "db (writeLine c col s st) = db st"
  "clients (writeLine c col s st) = clients st"
  "videoReq (writeLine c col s st) = videoReq st"
  "tcpClosed (writeLine c col s st) = tcpClosed st"
  by (simp_all add: writeLine_def)

lemma writeLine_out:
  "tcpOut (writeLine c col s st) =
     (if c \<in> tcpClosed st then tcpOut st else (tcpOut st)(c := tcpOut st c @ [lineBytes col s]))"
  by (simp add: writeLine_def writeRaw_out)

lemma writeLine_db_update:
  "writeLine c col s (st\<lparr>db := r\<rparr>) = (writeLine c col s st)\<lparr>db := r\<rparr>"
  by (simp add: writeLine_def writeRaw_def)

lemma writeLine_videoReq_update:
  "writeLine c col s (st\<lparr>videoReq := r\<rparr>) = (writeLine c col s st)\<lparr>videoReq := r\<rparr>"
  by (simp add: writeLine_def writeRaw_def)

lemma closeConn_fields [simp]:
  "db (closeConn c st) = db st" "clients (closeConn c st) = clients st"
  "videoReq (closeConn c st) = videoReq st" "tcpOut (closeConn c st) = tcpOut st"
  "tcpClosed (closeConn c st) = insert c (tcpClosed st)"
  by (simp_all add: closeConn_def)

lemma freshId_gt: "m \<in> set rows \<Longrightarrow> m_id m < freshId rows"
proof -
  have g: "\<And>a. a \<le> fold max xs a \<and> (\<forall>x\<in>set xs. x \<le> fold max xs a)" for xs :: "nat list"
  proof (induction xs)
    case Nil show ?case by simp
  next
    case (Cons x xs)
    from Cons[of "max x a"] show ?case by (auto simp: max_def split: if_splits)
  qed
  assume "m \<in> set rows"
  then have "m_id m \<in> set (map m_id rows)" by simp
  with g[of 0 "map m_id rows"] show ?thesis unfolding freshId_def by (auto simp: less_Suc_eq_le)
qed

lemma freshId_Nil [simp]: "freshId [] = 1"
  by (simp add: freshId_def)

lemma scanRows_fields:
  "db (fst (scanRows w rows (st, ids, n))) = db st"
  "clients (fst (scanRows w rows (st, ids, n))) = clients st"
  "videoReq (fst (scanRows w rows (st, ids, n))) = videoReq st"
  "tcpClosed (fst (scanRows w rows (st, ids, n))) = tcpClosed st"
  by (induction rows arbitrary: st ids n; simp)+

lemma scanRows_acc:
  "snd (scanRows w rows (st, ids, n)) = (ids @ map m_id rows, n + length rows)"
  by (induction rows arbitrary: st ids n) simp_all

lemma scanRows_out_open:
  "w \<notin> tcpClosed st \<Longrightarrow>
   tcpOut (fst (scanRows w rows (st, ids, n))) = (tcpOut st)(w := tcpOut st w @ map missedBytes rows)"
proof (induction rows arbitrary: st ids n)
  case Nil
  then show ?case by simp
next
  case (Cons m ms)
  then show ?case
    by (auto simp add: writeLine_out missedBytes_def fun_eq_iff)
qed

lemma scanRows_out_closed:
  "w \<in> tcpClosed st \<Longrightarrow> tcpOut (fst (scanRows w rows (st, ids, n))) = tcpOut st"
  by (induction rows arbitrary: st ids n) (simp_all add: writeLine_out)

lemma fetch_sorted: "sorted (map m_ts (fetchUndelivered u rows))"
  by (simp add: fetchUndelivered_def)

lemma fetch_mset:
  "mset (fetchUndelivered u rows) = mset (filter (\<lambda>m. m_recipient m = u \<and> \<not> m_delivered m) rows)"
  by (simp add: fetchUndelivered_def)

lemma fetch_set:
  "set (fetchUndelivered u rows) = {m \<in> set rows. m_recipient m = u \<and> \<not> m_delivered m}"
  by (auto simp add: fetchUndelivered_def)

lemma fetch_after_mark:
  "updateOk e \<Longrightarrow>
   fetchUndelivered u (markDelivered e (map m_id (fetchUndelivered u rows)) rows) = []"
proof -
  assume ok: "updateOk e"
  have "filter (\<lambda>m. m_recipient m = u \<and> \<not> m_delivered m)
          (markDelivered e (map m_id (fetchUndelivered u rows)) rows) = []"
    using ok by (auto simp: markDelivered_def filter_empty_conv fetch_set)
  then show ?thesis by (simp add: fetchUndelivered_def)
qed

lemma mark_fresh:
  "updateOk e \<Longrightarrow> m_id r = freshId rows \<Longrightarrow>
   markDelivered e [freshId rows] (rows @ [r]) = rows @ [r\<lparr>m_delivered := True\<rparr>]"
proof -
  assume ok: "updateOk e" and r: "m_id r = freshId rows"
  have "map (\<lambda>m. if m_id m \<in> set [freshId rows] then m\<lparr>m_delivered := True\<rparr> else m) rows = rows"
    by (intro map_idI) (auto dest: freshId_gt)
  with ok r show ?thesis by (simp add: markDelivered_def)
qed

lemma mark_settles:
  "updateOk e \<Longrightarrow> m \<in> set rows \<Longrightarrow> m_id m \<in> set ids \<Longrightarrow> settled (m_id m) (markDelivered e ids rows)"
proof -
  assume ok: "updateOk e" and m: "m \<in> set rows" and i: "m_id m \<in> set ids"
  let ?f = "\<lambda>m. if m_id m \<in> set ids then m\<lparr>m_delivered := True\<rparr> else m"
  have eq: "markDelivered e ids rows = map ?f rows" using ok by (simp add: markDelivered_def)
  from m have "?f m \<in> set (map ?f rows)" by simp
  moreover have "m_id (?f m) = m_id m" by simp
  ultimately have ex: "\<exists>x\<in>set (map ?f rows). m_id x = m_id m" by blast
  have al: "\<forall>x\<in>set (map ?f rows). m_id x = m_id m \<longrightarrow> m_delivered x"
    using i by auto
  show ?thesis unfolding eq settled_def using ex al by blast
qed

subsection \<open>Presence registry\<close>

lemma attach_fields [simp]:
  "db (attach u c st) = db st"
  "videoReq (attach u c st) = videoReq st"
  "tcpOut (attach u c st) = tcpOut st"
  by (simp_all add: attach_def closeConn_def Let_def split: option.splits)

lemma attach_clients: "clients (attach u c st) = (clients st)(u \<mapsto> \<lparr>name = u, conn = c\<rparr>)"
  by (simp add: attach_def closeConn_def Let_def split: option.splits)

lemma attach_closed:
  "tcpClosed (attach u c st) =
     (case clients st u of None \<Rightarrow> tcpClosed st | Some old \<Rightarrow> insert (conn old) (tcpClosed st))"
  by (simp add: attach_def closeConn_def Let_def split: option.splits)

lemma detach_unconditional:
  "clients (detach u st) = (clients st)(u := None) \<and> videoReq (detach u st) = (videoReq st)(u := None)
   \<and> db (detach u st) = db st \<and> tcpClosed (detach u st) = tcpClosed st \<and> tcpOut (detach u st) = tcpOut st"
  by (simp add: detach_def)

lemma users_distinct [simp]: "bilalUser \<noteq> zohaibUser" "zohaibUser \<noteq> bilalUser"
  by (simp_all add: bilalUser_def zohaibUser_def)

lemma peerOf_users [simp]: "peerOf bilalUser = zohaibUser" "peerOf zohaibUser = bilalUser"
  by (simp_all add: peerOf_def bilalUser_def zohaibUser_def)

lemma env0_simps [simp]:
  "insertOk env0" "updateOk env0" "queryOk env0" "now env0 = 3661" "videoBaseUrl env0 = []"
  "rnd env0 = (\<lambda>i. i)"
  by (simp_all add: env0_def)

lemma bilalOnly_simps:
  "clients bilalOnly = [bilalUser \<mapsto> \<lparr>name = bilalUser, conn = 1\<rparr>]"
  "tcpClosed bilalOnly = {}" "db bilalOnly = []" "videoReq bilalOnly = Map.empty"
  "tcpOut bilalOnly = (\<lambda>_. [])"
  by (simp_all add: bilalOnly_def attach_clients attach_closed initServer_def)

lemma bothOnline_simps:
  "clients bothOnline = [bilalUser \<mapsto> \<lparr>name = bilalUser, conn = 1\<rparr>, zohaibUser \<mapsto> \<lparr>name = zohaibUser, conn = 2\<rparr>]"
  "tcpClosed bothOnline = {}" "db bothOnline = []" "videoReq bothOnline = Map.empty" "tcpOut bothOnline = (\<lambda>_. [])"
  by (simp_all add: bothOnline_def attach_clients attach_closed initServer_def bilalUser_def zohaibUser_def)

text \<open>Claim C9. Registering a connection for an identity closes the connection that held
  the entry before, if there was one, and stores the new one: the identity then has exactly
  one entry, which holds the new connection; the entries of other identities are untouched;
  and at most one open connection is registered for the identity.\<close>

theorem attach_single_entry:
  "clients (attach u c st) u = Some \<lparr>name = u, conn = c\<rparr>
   \<and> {uc. clients (attach u c st) u = Some uc} = {\<lparr>name = u, conn = c\<rparr>}
   \<and> (\<forall>old. clients st u = Some old \<longrightarrow> conn old \<in> tcpClosed (attach u c st))
   \<and> (\<forall>v. v \<noteq> u \<longrightarrow> clients (attach u c st) v = clients st v)
   \<and> dom (clients (attach u c st)) = insert u (dom (clients st))
   \<and> card {k. \<exists>uc. clients (attach u c st) u = Some uc \<and> conn uc = k \<and> k \<notin> tcpClosed (attach u c st)} \<le> 1"
proof -
  have "{k. \<exists>uc. clients (attach u c st) u = Some uc \<and> conn uc = k \<and> k \<notin> tcpClosed (attach u c st)}
          \<subseteq> {c}"
    by (auto simp: attach_clients)
  then have "card {k. \<exists>uc. clients (attach u c st) u = Some uc \<and> conn uc = k \<and> k \<notin> tcpClosed (attach u c st)}
          \<le> card {c}"
    by (intro card_mono) auto
  then show ?thesis
    by (auto simp: attach_clients attach_closed)
qed

theorem attach_single_entry_witness:
  "clients bilalOnly bilalUser = Some \<lparr>name = bilalUser, conn = 1\<rparr>
   \<and> clients (attach bilalUser 2 bilalOnly) bilalUser = Some \<lparr>name = bilalUser, conn = 2\<rparr>
   \<and> 1 \<in> tcpClosed (attach bilalUser 2 bilalOnly)
   \<and> clients (attach bilalUser 2 bilalOnly) zohaibUser = clients bilalOnly zohaibUser"
  using attach_single_entry [of bilalUser 2 bilalOnly]
  by (simp add: bilalOnly_def attach_clients initServer_def bilalUser_def zohaibUser_def)

text \<open>Claim C1, on the code. Connection 1 logs in as bilal; connection 2 logs in as bilal
  and takes the session over, which closes connection 1. The handler of connection 1 then
  sees its read fail, leaves its loop and calls \<^verbatim>\<open>detach("bilal")\<close>: the entry, which
  holds the open connection 2, is removed, and the next message for bilal is reported as
  "peer offline".\<close>

theorem detach_after_takeover:
  "clients (attach bilalUser 2 bilalOnly) bilalUser = Some \<lparr>name = bilalUser, conn = 2\<rparr>
   \<and> 1 \<in> tcpClosed (attach bilalUser 2 bilalOnly)
   \<and> 2 \<notin> tcpClosed (attach bilalUser 2 bilalOnly)
   \<and> clients (detach bilalUser (attach bilalUser 2 bilalOnly)) bilalUser = None
   \<and> 2 \<notin> tcpClosed (detach bilalUser (attach bilalUser 2 bilalOnly))
   \<and> fst (sendToPeer env0 zohaibUser ''yo'' (detach bilalUser (attach bilalUser 2 bilalOnly)))
       = Some PeerOffline"
proof -
  have "clients (detach bilalUser (attach bilalUser 2 bilalOnly)) (peerOf zohaibUser) = None"
    by (simp add: detach_def)
  then have "fst (sendToPeer env0 zohaibUser ''yo'' (detach bilalUser (attach bilalUser 2 bilalOnly)))
       = Some PeerOffline"
    by (simp add: sendToPeer_def insertMessage_def)
  then show ?thesis
    by (simp add: detach_def attach_clients attach_closed bilalOnly_simps)
qed

subsection \<open>Sending\<close>

lemma sendToPeer_db_fail: "\<not> insertOk e \<Longrightarrow> sendToPeer e from txt st = (Some DbError, st)"
  by (simp add: sendToPeer_def insertMessage_def)

lemma sendToPeer_offline_eq:
  "insertOk e \<Longrightarrow> clients st (peerOf from) = None \<Longrightarrow>
   sendToPeer e from txt st = (Some PeerOffline, st\<lparr>db := db st @ [newRow e from (peerOf from) txt (db st)]\<rparr>)"
  by (simp add: sendToPeer_def insertMessage_def newRow_def)

lemma sendToPeer_online_eq:
  "insertOk e \<Longrightarrow> clients st (peerOf from) = Some dst \<Longrightarrow>
   sendToPeer e from txt st =
     (None, (writeLine (conn dst) (if from = zohaibUser then cyan else green)
               (liveLine (hhmmss (now e)) from txt) st)
            \<lparr>db := markDelivered e [freshId (db st)] (db st @ [newRow e from (peerOf from) txt (db st)])\<rparr>)"
  by (simp add: sendToPeer_def insertMessage_def newRow_def Let_def writeLine_db_update)

lemma newRow_fetched:
  "newRow e from (peerOf from) txt rows \<in> set (fetchUndelivered (peerOf from) (rows @ [newRow e from (peerOf from) txt rows]))"
  by (simp add: fetch_set newRow_def)

text \<open>Claim C4. When the insert fails, nothing else happens: no delivery is attempted
  without the row. When it succeeds, the row is in the table afterwards whatever the
  delivery does. When it succeeds and the peer has no entry, the outcome is "peer offline",
  the only change of state is the new row with \<open>delivered = False\<close>, and the row is among
  the undelivered messages of the peer. When it succeeds, the peer has an entry and the
  later UPDATE fails, the row is in the table as it was inserted, with
  \<open>delivered = False\<close>.\<close>

theorem sendToPeer_persists_first:
  "(\<not> insertOk e \<longrightarrow> sendToPeer e from txt st = (Some DbError, st))
   \<and> (insertOk e \<longrightarrow>
        (\<exists>m\<in>set (db (snd (sendToPeer e from txt st))).
            m\<lparr>m_delivered := False\<rparr> = newRow e from (peerOf from) txt (db st)))
   \<and> (insertOk e \<and> clients st (peerOf from) = None \<longrightarrow>
        sendToPeer e from txt st =
          (Some PeerOffline, st\<lparr>db := db st @ [newRow e from (peerOf from) txt (db st)]\<rparr>)
        \<and> newRow e from (peerOf from) txt (db st)
              \<in> set (fetchUndelivered (peerOf from) (db (snd (sendToPeer e from txt st)))))
   \<and> (insertOk e \<and> \<not> updateOk e \<and> clients st (peerOf from) = Some dst \<longrightarrow>
        fst (sendToPeer e from txt st) = None
        \<and> db (snd (sendToPeer e from txt st)) = db st @ [newRow e from (peerOf from) txt (db st)])"
proof (intro conjI impI)
  assume "\<not> insertOk e"
  then show "sendToPeer e from txt st = (Some DbError, st)" by (rule sendToPeer_db_fail)
next
  assume ok: "insertOk e"
  show "\<exists>m\<in>set (db (snd (sendToPeer e from txt st))). m\<lparr>m_delivered := False\<rparr> = newRow e from (peerOf from) txt (db st)"
  proof (cases "clients st (peerOf from)")
    case None
    with ok show ?thesis by (simp add: sendToPeer_offline_eq newRow_def)
  next
    case (Some dst)
    with ok show ?thesis
      by (auto simp add: sendToPeer_online_eq markDelivered_def newRow_def)
  qed
next
  assume a: "insertOk e \<and> clients st (peerOf from) = None"
  then show "sendToPeer e from txt st = (Some PeerOffline, st\<lparr>db := db st @ [newRow e from (peerOf from) txt (db st)]\<rparr>)"
    by (simp add: sendToPeer_offline_eq)
  from a show "newRow e from (peerOf from) txt (db st) \<in> set (fetchUndelivered (peerOf from) (db (snd (sendToPeer e from txt st))))"
    by (simp add: sendToPeer_offline_eq newRow_fetched)
next
  assume b: "insertOk e \<and> \<not> updateOk e \<and> clients st (peerOf from) = Some dst"
  then show "fst (sendToPeer e from txt st) = None"
    by (simp add: sendToPeer_online_eq)
  from b show "db (snd (sendToPeer e from txt st)) = db st @ [newRow e from (peerOf from) txt (db st)]"
    by (simp add: sendToPeer_online_eq markDelivered_def)
qed

theorem sendToPeer_persists_first_witness:
  "sendToPeer env0 bilalUser ''hi'' bilalOnly =
     (Some PeerOffline,
      bilalOnly\<lparr>db := [\<lparr>m_id = 1, m_sender = bilalUser, m_recipient = zohaibUser,
                          m_text = ''hi'', m_ts = 3661, m_delivered = False\<rparr>]\<rparr>)
   \<and> sendToPeer (env0\<lparr>insertOk := False\<rparr>) bilalUser ''hi'' bilalOnly = (Some DbError, bilalOnly)
   \<and> db (snd (sendToPeer (env0\<lparr>updateOk := False\<rparr>) bilalUser ''hi'' bothOnline))
       = [\<lparr>m_id = 1, m_sender = bilalUser, m_recipient = zohaibUser,
            m_text = ''hi'', m_ts = 3661, m_delivered = False\<rparr>]"
proof -
  have c: "clients bilalOnly (peerOf bilalUser) = None"
    by (simp add: bilalOnly_simps)
  have d: "db bilalOnly = []" by (simp add: bilalOnly_simps)
  have i: "insertOk env0" "\<not> insertOk (env0\<lparr>insertOk := False\<rparr>)" by (simp_all add: env0_def)
  from sendToPeer_persists_first [of env0 bilalUser "''hi''" bilalOnly]
       sendToPeer_persists_first [of "env0\<lparr>insertOk := False\<rparr>" bilalUser "''hi''" bilalOnly]
  have x: "sendToPeer env0 bilalUser ''hi'' bilalOnly =
     (Some PeerOffline,
      bilalOnly\<lparr>db := [\<lparr>m_id = 1, m_sender = bilalUser, m_recipient = zohaibUser,
                          m_text = ''hi'', m_ts = 3661, m_delivered = False\<rparr>]\<rparr>)
   \<and> sendToPeer (env0\<lparr>insertOk := False\<rparr>) bilalUser ''hi'' bilalOnly = (Some DbError, bilalOnly)"
    using c i by (simp add: d newRow_def env0_def)
  have h: "insertOk (env0\<lparr>updateOk := False\<rparr>) \<and> \<not> updateOk (env0\<lparr>updateOk := False\<rparr>)
           \<and> clients bothOnline (peerOf bilalUser) = Some \<lparr>name = zohaibUser, conn = 2\<rparr>"
    by (simp add: env0_def bothOnline_simps)
  from sendToPeer_persists_first [of "env0\<lparr>updateOk := False\<rparr>" bilalUser "''hi''" bothOnline
         "\<lparr>name = zohaibUser, conn = 2\<rparr>"] h
  have y: "db (snd (sendToPeer (env0\<lparr>updateOk := False\<rparr>) bilalUser ''hi'' bothOnline))
       = db bothOnline @ [newRow (env0\<lparr>updateOk := False\<rparr>) bilalUser (peerOf bilalUser) ''hi'' (db bothOnline)]"
    by blast
  have z: "db bothOnline @ [newRow (env0\<lparr>updateOk := False\<rparr>) bilalUser (peerOf bilalUser) ''hi'' (db bothOnline)]
       = [\<lparr>m_id = 1, m_sender = bilalUser, m_recipient = zohaibUser,
            m_text = ''hi'', m_ts = 3661, m_delivered = False\<rparr>]"
    by (simp add: bothOnline_simps newRow_def env0_def)
  from y z have "db (snd (sendToPeer (env0\<lparr>updateOk := False\<rparr>) bilalUser ''hi'' bothOnline))
       = [\<lparr>m_id = 1, m_sender = bilalUser, m_recipient = zohaibUser,
            m_text = ''hi'', m_ts = 3661, m_delivered = False\<rparr>]"
    by (rule trans)
  with x show ?thesis by blast
qed

subsection \<open>Delivered flags never revert\<close>

lemma settled_insert:
  "settled i rows \<Longrightarrow> m_id r = freshId rows \<Longrightarrow> settled i (rows @ [r])"
proof -
  assume s: "settled i rows" and r: "m_id r = freshId rows"
  from s obtain m where m: "m \<in> set rows" "m_id m = i" unfolding settled_def by blast
  from m freshId_gt[of m rows] r have "m_id r \<noteq> i" by simp
  with s show ?thesis unfolding settled_def by auto
qed

lemma settled_mark: "settled i rows \<Longrightarrow> settled i (markDelivered e ids rows)"
proof -
  assume s: "settled i rows"
  let ?f = "\<lambda>m. if m_id m \<in> set ids then m\<lparr>m_delivered := True\<rparr> else m"
  have id: "\<And>m. m_id (?f m) = m_id m" by simp
  have dl: "\<And>m. m_delivered m \<Longrightarrow> m_delivered (?f m)" by simp
  from s obtain m where m: "m \<in> set rows" "m_id m = i" unfolding settled_def by blast
  then have "?f m \<in> set (map ?f rows)" "m_id (?f m) = i" by simp_all
  then have ex: "\<exists>m\<in>set (map ?f rows). m_id m = i" by blast
  have al: "\<forall>m\<in>set (map ?f rows). m_id m = i \<longrightarrow> m_delivered m"
    using s unfolding settled_def by auto
  show ?thesis
  proof (cases "updateOk e")
    case True
    then have eq: "markDelivered e ids rows = map ?f rows" by (simp add: markDelivered_def)
    show ?thesis unfolding eq settled_def using ex al by blast
  next
    case False
    with s show ?thesis by (simp add: markDelivered_def)
  qed
qed

lemma settled_sendToPeer: "settled i (db st) \<Longrightarrow> settled i (db (snd (sendToPeer e from txt st)))"
proof (cases "insertOk e")
  case False
  assume "settled i (db st)"
  with False show ?thesis by (simp add: sendToPeer_db_fail)
next
  case True
  assume s: "settled i (db st)"
  have n: "settled i (db st @ [newRow e from (peerOf from) txt (db st)])"
    using s by (rule settled_insert) (simp add: newRow_def)
  show ?thesis
  proof (cases "clients st (peerOf from)")
    case None
    with True n show ?thesis by (simp add: sendToPeer_offline_eq)
  next
    case (Some dst)
    with True n show ?thesis by (simp add: sendToPeer_online_eq settled_mark)
  qed
qed

lemma deliverUndelivered_db:
  "db (deliverUndelivered e u st) = db st \<or>
   db (deliverUndelivered e u st) = markDelivered e (map m_id (fetchUndelivered u (db st))) (db st)"
proof (cases "clients st u")
  case None
  then show ?thesis by (simp add: deliverUndelivered_def)
next
  case (Some uc)
  obtain st1 ids n where sc: "scanRows (conn uc) (fetchUndelivered u (db st)) (st, [], 0) = (st1, ids, n)"
    by (cases "scanRows (conn uc) (fetchUndelivered u (db st)) (st, [], 0)") auto
  from scanRows_acc[of "conn uc" "fetchUndelivered u (db st)" st "[]" 0] sc
  have ids: "ids = map m_id (fetchUndelivered u (db st))" by simp
  from scanRows_fields(1)[of "conn uc" "fetchUndelivered u (db st)" st "[]" 0] sc
  have d: "db st1 = db st" by simp
  show ?thesis using Some sc ids d
    by (simp add: deliverUndelivered_def Let_def)
qed

lemma settled_deliverUndelivered: "settled i (db st) \<Longrightarrow> settled i (db (deliverUndelivered e u st))"
proof -
  assume s: "settled i (db st)"
  from deliverUndelivered_db[of e u st] show ?thesis
  proof
    assume "db (deliverUndelivered e u st) = db st"
    with s show ?thesis by simp
  next
    assume "db (deliverUndelivered e u st) = markDelivered e (map m_id (fetchUndelivered u (db st))) (db st)"
    with settled_mark[OF s] show ?thesis by simp
  qed
qed

lemma handleVideoRequest_db [simp]: "db (handleVideoRequest u st) = db st"
  by (simp add: handleVideoRequest_def Let_def split: option.splits)

lemma noPending_db [simp]: "db (noPending u st) = db st"
  by (simp add: noPending_def split: option.splits)

lemma handleVideoAccept_db [simp]: "db (handleVideoAccept e u st) = db st"
  by (simp add: handleVideoAccept_def Let_def split: option.splits)

lemma handleVideoDecline_db [simp]: "db (handleVideoDecline u st) = db st"
  by (simp add: handleVideoDecline_def Let_def split: option.splits)

lemma settled_exec: "settled i (db st) \<Longrightarrow> settled i (db (exec c st))"
proof (cases c)
  case (SendToPeer e frm t)
  assume "settled i (db st)"
  with SendToPeer show ?thesis by (simp add: settled_sendToPeer)
next
  case (DeliverUndelivered e u)
  assume "settled i (db st)"
  with DeliverUndelivered show ?thesis by (simp add: settled_deliverUndelivered)
qed (simp_all add: detach_def closeConn_def)

lemma settled_run: "settled i (db st) \<Longrightarrow> settled i (db (run cs st))"
  unfolding run_def by (induction cs arbitrary: st) (simp_all add: settled_exec)

lemma settled_not_fetched: "settled i rows \<Longrightarrow> m \<in> set (fetchUndelivered u rows) \<Longrightarrow> m_id m \<noteq> i"
  by (auto simp: settled_def fetch_set)

lemma sendToPeer_online_db:
  assumes "insertOk e" "updateOk e" "clients st (peerOf from) = Some dst"
  shows "db (snd (sendToPeer e from txt st)) = db st @ [(newRow e from (peerOf from) txt (db st))\<lparr>m_delivered := True\<rparr>]"
proof -
  have "m_id (newRow e from (peerOf from) txt (db st)) = freshId (db st)" by (simp add: newRow_def)
  with assms show ?thesis by (simp add: sendToPeer_online_eq mark_fresh)
qed

lemma sendToPeer_online_settled:
  assumes "insertOk e" "updateOk e" "clients st (peerOf from) = Some dst"
  shows "settled (freshId (db st)) (db (snd (sendToPeer e from txt st)))"
proof -
  have "\<forall>m\<in>set (db st). m_id m \<noteq> freshId (db st)"
    by (auto dest: freshId_gt)
  then show ?thesis
    unfolding sendToPeer_online_db[OF assms] settled_def by (auto simp: newRow_def)
qed

text \<open>Claim C10. When the peer has an entry in the registry (and the SQL statements
  succeed), the new row ends up flagged delivered: also when the connection of the peer is
  closed, so that the write fails and nothing reaches the peer. After any further run of
  the server, no backlog query for any user returns a row with the id of that message.\<close>

theorem sendToPeer_marks_delivered:
  assumes "insertOk e" and "updateOk e" and "clients st (peerOf from) = Some dst"
  shows "fst (sendToPeer e from txt st) = None
     \<and> db (snd (sendToPeer e from txt st))
          = db st @ [(newRow e from (peerOf from) txt (db st))\<lparr>m_delivered := True\<rparr>]
     \<and> (conn dst \<in> tcpClosed st \<longrightarrow> tcpOut (snd (sendToPeer e from txt st)) = tcpOut st)
     \<and> (\<forall>cs u. \<forall>m\<in>set (fetchUndelivered u (db (run cs (snd (sendToPeer e from txt st))))).
            m_id m \<noteq> freshId (db st))"
proof (intro conjI allI ballI impI)
  show "fst (sendToPeer e from txt st) = None"
    using assms by (simp add: sendToPeer_online_eq)
  show "db (snd (sendToPeer e from txt st)) = db st @ [(newRow e from (peerOf from) txt (db st))\<lparr>m_delivered := True\<rparr>]"
    using assms by (rule sendToPeer_online_db)
next
  assume "conn dst \<in> tcpClosed st"
  with assms show "tcpOut (snd (sendToPeer e from txt st)) = tcpOut st"
    by (simp add: sendToPeer_online_eq writeLine_out)
next
  fix cs u m
  assume m: "m \<in> set (fetchUndelivered u (db (run cs (snd (sendToPeer e from txt st)))))"
  have "settled (freshId (db st)) (db (run cs (snd (sendToPeer e from txt st))))"
    using sendToPeer_online_settled[OF assms] by (rule settled_run)
  from settled_not_fetched[OF this m] show "m_id m \<noteq> freshId (db st)" .
qed

theorem sendToPeer_marks_delivered_witness:
  "fst (sendToPeer env0 bilalUser ''hi'' (closeConn 2 bothOnline)) = None
   \<and> db (snd (sendToPeer env0 bilalUser ''hi'' (closeConn 2 bothOnline)))
        = [\<lparr>m_id = 1, m_sender = bilalUser, m_recipient = zohaibUser, m_text = ''hi'',
             m_ts = 3661, m_delivered = True\<rparr>]
   \<and> tcpOut (snd (sendToPeer env0 bilalUser ''hi'' (closeConn 2 bothOnline))) 2 = []
   \<and> fetchUndelivered zohaibUser
         (db (run [Attach zohaibUser 3]
               (snd (sendToPeer env0 bilalUser ''hi'' (closeConn 2 bothOnline))))) = []"
proof -
  have c: "clients (closeConn 2 bothOnline) (peerOf bilalUser) = Some \<lparr>name = zohaibUser, conn = 2\<rparr>"
    by (simp add: bothOnline_simps)
  have i: "insertOk env0" and u: "updateOk env0" by (simp_all add: env0_def)
  note t = sendToPeer_marks_delivered [OF i u c, of "''hi''"]
  from t show ?thesis
    by (simp add: bothOnline_simps newRow_def env0_def run_def fetchUndelivered_def)
qed

subsection \<open>Backlog delivery\<close>

lemma deliverUndelivered_absent: "clients st u = None \<Longrightarrow> deliverUndelivered e u st = st"
  by (simp add: deliverUndelivered_def)

lemma deliverUndelivered_attached:
  assumes "queryOk e" and "clients st u = Some uc"
  shows "deliverUndelivered e u st =
     (if fetchUndelivered u (db st) = [] then st
      else (writeLine (conn uc) yellow (summaryLine (length (fetchUndelivered u (db st))))
              (fst (scanRows (conn uc) (fetchUndelivered u (db st)) (st, [], 0))))
           \<lparr>db := markDelivered e (map m_id (fetchUndelivered u (db st))) (db st)\<rparr>)"
proof -
  let ?rows = "fetchUndelivered u (db st)"
  obtain st1 ids n where sc: "scanRows (conn uc) ?rows (st, [], 0) = (st1, ids, n)"
    by (cases "scanRows (conn uc) ?rows (st, [], 0)") auto
  from scanRows_acc[of "conn uc" ?rows st "[]" 0] sc
  have acc: "ids = map m_id ?rows" "n = length ?rows" by simp_all
  from scanRows_fields(1)[of "conn uc" ?rows st "[]" 0] sc
  have d: "db st1 = db st" by simp
  have e: "?rows = [] \<Longrightarrow> st1 = st" using sc by simp
  show ?thesis
    using assms sc acc d e by (simp add: deliverUndelivered_def Let_def)
qed

lemma deliverUndelivered_out:
  assumes "queryOk e" and "clients st u = Some uc" and "conn uc \<notin> tcpClosed st"
  shows "tcpOut (deliverUndelivered e u st) =
     (tcpOut st)(conn uc := tcpOut st (conn uc) @ map missedBytes (fetchUndelivered u (db st))
        @ (if fetchUndelivered u (db st) = [] then []
           else [lineBytes yellow (summaryLine (length (fetchUndelivered u (db st))))]))"
proof (cases "fetchUndelivered u (db st) = []")
  case True
  with assms show ?thesis by (simp add: deliverUndelivered_attached)
next
  case False
  have "conn uc \<notin> tcpClosed (fst (scanRows (conn uc) (fetchUndelivered u (db st)) (st, [], 0)))"
    using assms(3) by (simp add: scanRows_fields)
  with False assms show ?thesis
    by (simp add: deliverUndelivered_attached writeLine_out scanRows_out_open)
qed

lemma deliverUndelivered_db_eq:
  assumes "queryOk e" and "clients st u = Some uc"
  shows "db (deliverUndelivered e u st) = markDelivered e (map m_id (fetchUndelivered u (db st))) (db st)"
proof (cases "fetchUndelivered u (db st) = []")
  case True
  have "markDelivered e [] (db st) = db st"
    by (simp add: markDelivered_def map_idI)
  with True assms show ?thesis by (simp add: deliverUndelivered_attached)
next
  case False
  with assms show ?thesis by (simp add: deliverUndelivered_attached)
qed

lemma deliverUndelivered_clients [simp]: "clients (deliverUndelivered e u st) = clients st"
proof (cases "clients st u")
  case None
  then show ?thesis by (simp add: deliverUndelivered_absent)
next
  case (Some uc)
  then show ?thesis
    by (cases "queryOk e") (simp_all add: deliverUndelivered_attached scanRows_fields, simp add: deliverUndelivered_def)
qed

lemma deliverUndelivered_nothing:
  "fetchUndelivered u (db st) = [] \<Longrightarrow> deliverUndelivered e u st = st"
  by (cases "queryOk e"; cases "clients st u")
     (simp_all add: deliverUndelivered_attached deliverUndelivered_absent, simp_all add: deliverUndelivered_def)

text \<open>Claim C3. With no connection attached, \<^verbatim>\<open>deliverUndelivered\<close> changes nothing.
  With the recipient attached on an open connection (and the SQL statements succeeding), the
  fetched rows are the undelivered rows addressed to the recipient, in ascending order of
  timestamp; the connection receives one "missed" line per fetched row, in that order,
  followed by the summary line when there was at least one; one statement then flags every
  fetched id delivered, so that no undelivered row for the recipient is left, an attach
  that follows delivers nothing, and no backlog query after any further run returns one
  of the fetched ids.\<close>

theorem deliverUndelivered_backlog:
  "(clients st u = None \<longrightarrow> deliverUndelivered e u st = st)
   \<and> (queryOk e \<and> updateOk e \<and> clients st u = Some uc \<and> conn uc \<notin> tcpClosed st \<longrightarrow>
        sorted (map m_ts (fetchUndelivered u (db st)))
      \<and> mset (fetchUndelivered u (db st))
           = mset (filter (\<lambda>m. m_recipient m = u \<and> \<not> m_delivered m) (db st))
      \<and> tcpOut (deliverUndelivered e u st) =
           (tcpOut st)(conn uc := tcpOut st (conn uc)
              @ map missedBytes (fetchUndelivered u (db st))
              @ (if fetchUndelivered u (db st) = [] then []
                 else [lineBytes yellow (summaryLine (length (fetchUndelivered u (db st))))]))
      \<and> db (deliverUndelivered e u st)
           = markDelivered e (map m_id (fetchUndelivered u (db st))) (db st)
      \<and> fetchUndelivered u (db (deliverUndelivered e u st)) = []
      \<and> (\<forall>e2 c2. deliverUndelivered e2 u (attach u c2 (deliverUndelivered e u st))
                    = attach u c2 (deliverUndelivered e u st))
      \<and> (\<forall>m\<in>set (fetchUndelivered u (db st)). \<forall>cs v.
            \<forall>m2\<in>set (fetchUndelivered v (db (run cs (deliverUndelivered e u st)))).
              m_id m2 \<noteq> m_id m))"
proof (intro conjI impI)
  assume "clients st u = None"
  then show "deliverUndelivered e u st = st" by (rule deliverUndelivered_absent)
next
  assume a: "queryOk e \<and> updateOk e \<and> clients st u = Some uc \<and> conn uc \<notin> tcpClosed st"
  then have q: "queryOk e" and up: "updateOk e" and c: "clients st u = Some uc"
    and o: "conn uc \<notin> tcpClosed st" by simp_all
  let ?st' = "deliverUndelivered e u st"
  show "sorted (map m_ts (fetchUndelivered u (db st)))" by (rule fetch_sorted)
  show "mset (fetchUndelivered u (db st))
           = mset (filter (\<lambda>m. m_recipient m = u \<and> \<not> m_delivered m) (db st))"
    by (rule fetch_mset)
  show "tcpOut ?st' =
           (tcpOut st)(conn uc := tcpOut st (conn uc)
              @ map missedBytes (fetchUndelivered u (db st))
              @ (if fetchUndelivered u (db st) = [] then []
                 else [lineBytes yellow (summaryLine (length (fetchUndelivered u (db st))))]))"
    using q c o by (rule deliverUndelivered_out)
  show d: "db ?st' = markDelivered e (map m_id (fetchUndelivered u (db st))) (db st)"
    using q c by (rule deliverUndelivered_db_eq)
  show f: "fetchUndelivered u (db ?st') = []"
    unfolding d using up by (rule fetch_after_mark)
  show "\<forall>e2 c2. deliverUndelivered e2 u (attach u c2 ?st') = attach u c2 ?st'"
    using f by (simp add: deliverUndelivered_nothing)
  show "\<forall>m\<in>set (fetchUndelivered u (db st)). \<forall>cs v.
            \<forall>m2\<in>set (fetchUndelivered v (db (run cs ?st'))). m_id m2 \<noteq> m_id m"
  proof (intro ballI allI)
    fix m cs v m2
    assume m: "m \<in> set (fetchUndelivered u (db st))"
      and m2: "m2 \<in> set (fetchUndelivered v (db (run cs ?st')))"
    from m have "m \<in> set (db st)" by (simp add: fetch_set)
    moreover from m have "m_id m \<in> set (map m_id (fetchUndelivered u (db st)))" by simp
    ultimately have "settled (m_id m) (db ?st')"
      unfolding d using up by (intro mark_settles)
    then have "settled (m_id m) (db (run cs ?st'))" by (rule settled_run)
    from settled_not_fetched[OF this m2] show "m_id m2 \<noteq> m_id m" .
  qed
qed

lemma backlogFor2_simps:
  "clients backlogFor2 = [bilalUser \<mapsto> \<lparr>name = bilalUser, conn = 1\<rparr>,
                          zohaibUser \<mapsto> \<lparr>name = zohaibUser, conn = 2\<rparr>]"
  "tcpClosed backlogFor2 = {}"
  "db backlogFor2 = [\<lparr>m_id = 1, m_sender = bilalUser, m_recipient = zohaibUser,
                       m_text = ''hi'', m_ts = 3661, m_delivered = False\<rparr>]"
  "tcpOut backlogFor2 = (\<lambda>_. [])"
proof -
  have c: "clients bilalOnly (peerOf bilalUser) = None" by (simp add: bilalOnly_simps)
  have s: "snd (sendToPeer env0 bilalUser ''hi'' bilalOnly)
             = bilalOnly\<lparr>db := db bilalOnly @ [newRow env0 bilalUser (peerOf bilalUser) ''hi'' (db bilalOnly)]\<rparr>"
    using c by (simp add: sendToPeer_offline_eq)
  show "clients backlogFor2 = [bilalUser \<mapsto> \<lparr>name = bilalUser, conn = 1\<rparr>,
                          zohaibUser \<mapsto> \<lparr>name = zohaibUser, conn = 2\<rparr>]"
    by (simp add: backlogFor2_def s attach_clients bilalOnly_simps)
  show "tcpClosed backlogFor2 = {}"
    by (simp add: backlogFor2_def s attach_closed bilalOnly_simps)
  show "db backlogFor2 = [\<lparr>m_id = 1, m_sender = bilalUser, m_recipient = zohaibUser,
                       m_text = ''hi'', m_ts = 3661, m_delivered = False\<rparr>]"
    by (simp add: backlogFor2_def s bilalOnly_simps newRow_def)
  show "tcpOut backlogFor2 = (\<lambda>_. [])"
    by (simp add: backlogFor2_def s bilalOnly_simps)
qed

lemma hhmmss_3661: "hhmmss 3661 = ''01:01:01''"
  by (simp add: hhmmss_def two_def digit_def)

lemma itoa_1: "itoa (Suc 0) = ''1''"
  by (simp add: itoa.simps digit_def)

theorem deliverUndelivered_backlog_witness:
  "tcpOut (deliverUndelivered env0 zohaibUser backlogFor2) 2
     = [lineBytes green ''[missed 01:01:01] bilal: hi'',
        lineBytes yellow ''You had 1 offline message(s).'']
   \<and> db (deliverUndelivered env0 zohaibUser backlogFor2)
     = [\<lparr>m_id = 1, m_sender = bilalUser, m_recipient = zohaibUser,
          m_text = ''hi'', m_ts = 3661, m_delivered = True\<rparr>]
   \<and> deliverUndelivered env0 zohaibUser
         (attach zohaibUser 3 (deliverUndelivered env0 zohaibUser backlogFor2))
       = attach zohaibUser 3 (deliverUndelivered env0 zohaibUser backlogFor2)
   \<and> deliverUndelivered env0 zohaibUser (detach zohaibUser backlogFor2)
       = detach zohaibUser backlogFor2"
proof -
  let ?st' = "deliverUndelivered env0 zohaibUser backlogFor2"
  have f: "fetchUndelivered zohaibUser (db backlogFor2) = db backlogFor2"
    by (simp add: fetchUndelivered_def backlogFor2_simps)
  have h: "queryOk env0 \<and> updateOk env0
           \<and> clients backlogFor2 zohaibUser = Some \<lparr>name = zohaibUser, conn = 2\<rparr>
           \<and> conn \<lparr>name = zohaibUser, conn = 2\<rparr> \<notin> tcpClosed backlogFor2"
    by (simp add: backlogFor2_simps)
  have n: "clients (detach zohaibUser backlogFor2) zohaibUser = None"
    by (simp add: detach_def)
  note t = deliverUndelivered_backlog [of backlogFor2 zohaibUser env0 "\<lparr>name = zohaibUser, conn = 2\<rparr>"]
  note t2 = deliverUndelivered_backlog [of "detach zohaibUser backlogFor2" zohaibUser env0 undefined]
  from t h have out: "tcpOut ?st' = (tcpOut backlogFor2)(2 := tcpOut backlogFor2 2
              @ map missedBytes (fetchUndelivered zohaibUser (db backlogFor2))
              @ (if fetchUndelivered zohaibUser (db backlogFor2) = [] then []
                 else [lineBytes yellow (summaryLine (length (fetchUndelivered zohaibUser (db backlogFor2))))]))"
    by simp
  from t h have d: "db ?st' = markDelivered env0 (map m_id (fetchUndelivered zohaibUser (db backlogFor2))) (db backlogFor2)"
    by simp
  from t h have a: "deliverUndelivered env0 zohaibUser (attach zohaibUser 3 ?st') = attach zohaibUser 3 ?st'"
    by simp
  from t2 n have b: "deliverUndelivered env0 zohaibUser (detach zohaibUser backlogFor2) = detach zohaibUser backlogFor2"
    by simp
  have o: "tcpOut ?st' 2 = [lineBytes green ''[missed 01:01:01] bilal: hi'',
        lineBytes yellow ''You had 1 offline message(s).'']"
    unfolding out f
    by (simp add: backlogFor2_simps missedBytes_def missedLine_def summaryLine_def
          hhmmss_3661 itoa_1) (simp add: bilalUser_def zohaibUser_def)
  have d2: "db ?st' = [\<lparr>m_id = 1, m_sender = bilalUser, m_recipient = zohaibUser,
          m_text = ''hi'', m_ts = 3661, m_delivered = True\<rparr>]"
    unfolding d f by (simp add: backlogFor2_simps markDelivered_def)
  from o d2 a b show ?thesis by simp
qed

subsection \<open>Call handshake\<close>

lemma length_letters: "length letters = 62"
  by (simp add: letters_def)

lemma distinct_letters: "distinct letters"
  by (simp add: letters_def)

lemma alnum_letters: "\<forall>c\<in>set letters. alnum c"
  by (simp add: letters_def alnum_def)

lemma generateSID_length: "length (generateSID r) = 12"
  by (simp add: generateSID_def)

lemma generateSID_set: "set (generateSID r) \<subseteq> set letters"
proof -
  have "\<And>i. letters ! Intn (r i) (length letters) \<in> set letters"
    by (intro nth_mem) (simp add: Intn_def length_letters)
  then show ?thesis unfolding generateSID_def by auto
qed

lemma generateSID_id: "generateSID (\<lambda>i. i) = ''abcdefghijkl''"
  by (simp add: generateSID_def Intn_def letters_def upt_rec)

lemma generateSID_nth:
  "i < 12 \<Longrightarrow> generateSID r ! i = letters ! (r i mod 62)"
  by (simp add: generateSID_def Intn_def length_letters)

lemma generateSID_onto:
  assumes "length s = 12" and "set s \<subseteq> set letters"
  shows "\<exists>r. generateSID r = s"
proof -
  have "\<forall>i. \<exists>k. i < 12 \<longrightarrow> k < 62 \<and> letters ! k = s ! i"
  proof
    fix i
    show "\<exists>k. i < 12 \<longrightarrow> k < 62 \<and> letters ! k = s ! i"
    proof (cases "i < 12")
      case True
      with assms have "s ! i \<in> set letters" by (auto simp: subset_eq)
      then obtain k where "k < length letters" "letters ! k = s ! i"
        by (auto simp: in_set_conv_nth)
      then show ?thesis by (auto simp: length_letters)
    next
      case False
      then show ?thesis by simp
    qed
  qed
  then have "\<exists>f. \<forall>i. i < 12 \<longrightarrow> f i < 62 \<and> letters ! f i = s ! i"
    by (rule choice)
  then obtain f where f: "\<forall>i. i < 12 \<longrightarrow> f i < 62 \<and> letters ! f i = s ! i" ..
  have "generateSID f = s"
  proof (rule nth_equalityI)
    show "length (generateSID f) = length s" using assms(1) by (simp add: generateSID_length)
  next
    fix i assume "i < length (generateSID f)"
    then have i: "i < 12" by (simp add: generateSID_length)
    with f have "f i < 62" "letters ! f i = s ! i" by auto
    with i show "generateSID f ! i = s ! i" by (simp add: generateSID_nth)
  qed
  then show ?thesis by blast
qed

lemma generateSID_wrap: "generateSID (\<lambda>i. 61 + 3 * i) = ''9cfiloruxADG''"
  by (simp add: generateSID_def Intn_def letters_def upt_rec)

lemma handleVideoRequest_online:
  "clients st (peerOf requester) = Some cc \<Longrightarrow>
   handleVideoRequest requester st =
     writeLine (conn cc) yellow
       (requester @ '' requests your camera. Type /acceptvideo or /declinevideo'')
       (st\<lparr>videoReq := (videoReq st)(peerOf requester \<mapsto> requester)\<rparr>)"
  by (simp add: handleVideoRequest_def)

lemma handleVideoAccept_pending:
  assumes "videoReq st callee = Some requester" "clients st callee = Some cc"
    "clients st requester = Some rc"
  shows "handleVideoAccept e callee st =
     writeLine (conn rc) yellow (viewerURL (baseUrl e) (generateSID (rnd e)))
       (writeLine (conn rc) yellow ''Open this URL to view the camera:''
         (writeLine (conn cc) yellow (senderURL (baseUrl e) (generateSID (rnd e)))
           (writeLine (conn cc) yellow ''Video approved. Open this URL to share your camera:''
              (st\<lparr>videoReq := (videoReq st)(callee := None)\<rparr>))))"
  using assms by (simp add: handleVideoAccept_def Let_def)

text \<open>Claim C8. With the requester and its peer both attached on open connections, a
  request followed by the peer's accept draws one session id of twelve characters, each
  from the 62 distinct letters and digits of the alphabet: character \<open>i\<close> is the letter
  that the \<open>i\<close>-th draw of the random source selects, and every string of twelve letters
  of the alphabet is the id of some source. The callee receives the request prompt and
  then the sender URL, the requester receives the viewer URL; the two URLs are the base
  address, the path \<open>/v/send\<close> or \<open>/v/view\<close>, and the same session id; the pending
  request is cleared and no other connection receives anything.\<close>

theorem video_call_accept:
  assumes "clients st requester = Some rc" and "clients st (peerOf requester) = Some cc"
    and "conn rc \<notin> tcpClosed st" and "conn cc \<notin> tcpClosed st" and "conn rc \<noteq> conn cc"
  shows "length (generateSID (rnd e)) = 12
     \<and> set (generateSID (rnd e)) \<subseteq> set letters
     \<and> length letters = 62 \<and> distinct letters \<and> (\<forall>c\<in>set letters. alnum c)
     \<and> (\<forall>i<12. generateSID (rnd e) ! i = letters ! (rnd e i mod 62))
     \<and> (\<forall>s. length s = 12 \<and> set s \<subseteq> set letters \<longrightarrow> (\<exists>r. generateSID r = s))
     \<and> tcpOut (handleVideoAccept e (peerOf requester) (handleVideoRequest requester st)) (conn cc)
         = tcpOut st (conn cc) @
           [lineBytes yellow (requester @ '' requests your camera. Type /acceptvideo or /declinevideo''),
            lineBytes yellow ''Video approved. Open this URL to share your camera:'',
            lineBytes yellow (baseUrl e @ ''/v/'' @ ''send'' @ ''?sid='' @ generateSID (rnd e))]
     \<and> tcpOut (handleVideoAccept e (peerOf requester) (handleVideoRequest requester st)) (conn rc)
         = tcpOut st (conn rc) @
           [lineBytes yellow ''Open this URL to view the camera:'',
            lineBytes yellow (baseUrl e @ ''/v/'' @ ''view'' @ ''?sid='' @ generateSID (rnd e))]
     \<and> (\<forall>c. c \<noteq> conn cc \<and> c \<noteq> conn rc \<longrightarrow>
            tcpOut (handleVideoAccept e (peerOf requester) (handleVideoRequest requester st)) c
              = tcpOut st c)
     \<and> videoReq (handleVideoAccept e (peerOf requester) (handleVideoRequest requester st))
           (peerOf requester) = None"
proof -
  let ?st1 = "handleVideoRequest requester st"
  let ?st2 = "handleVideoAccept e (peerOf requester) ?st1"
  have r: "?st1 = writeLine (conn cc) yellow
       (requester @ '' requests your camera. Type /acceptvideo or /declinevideo'')
       (st\<lparr>videoReq := (videoReq st)(peerOf requester \<mapsto> requester)\<rparr>)"
    using assms(2) by (rule handleVideoRequest_online)
  have p: "videoReq ?st1 (peerOf requester) = Some requester"
    "clients ?st1 (peerOf requester) = Some cc" "clients ?st1 requester = Some rc"
    "tcpClosed ?st1 = tcpClosed st"
    using assms(1,2) by (simp_all add: r)
  have o1: "tcpOut ?st1 = (tcpOut st)(conn cc := tcpOut st (conn cc) @
      [lineBytes yellow (requester @ '' requests your camera. Type /acceptvideo or /declinevideo'')])"
    using assms(4) by (simp add: r writeLine_out)
  note a = handleVideoAccept_pending [OF p(1,2,3), of e]
  have o2: "tcpOut ?st2 = (tcpOut ?st1)
      (conn cc := tcpOut ?st1 (conn cc) @
           [lineBytes yellow ''Video approved. Open this URL to share your camera:'',
            lineBytes yellow (senderURL (baseUrl e) (generateSID (rnd e)))],
       conn rc := tcpOut ?st1 (conn rc) @
           [lineBytes yellow ''Open this URL to view the camera:'',
            lineBytes yellow (viewerURL (baseUrl e) (generateSID (rnd e)))])"
    unfolding a using assms(3,4,5) p(4)
    by (simp add: writeLine_out fun_eq_iff)
  have v: "videoReq ?st2 (peerOf requester) = None"
    unfolding a by simp
  have g: "\<forall>i<12. generateSID (rnd e) ! i = letters ! (rnd e i mod 62)"
    by (simp add: generateSID_nth)
  have on: "\<forall>s. length s = 12 \<and> set s \<subseteq> set letters \<longrightarrow> (\<exists>r. generateSID r = s)"
    by (simp add: generateSID_onto)
  have rest: "length (generateSID (rnd e)) = 12
     \<and> set (generateSID (rnd e)) \<subseteq> set letters
     \<and> length letters = 62 \<and> distinct letters \<and> (\<forall>c\<in>set letters. alnum c)"
    by (simp add: generateSID_length generateSID_set length_letters distinct_letters alnum_letters)
  have outs: "tcpOut ?st2 (conn cc)
         = tcpOut st (conn cc) @
           [lineBytes yellow (requester @ '' requests your camera. Type /acceptvideo or /declinevideo''),
            lineBytes yellow ''Video approved. Open this URL to share your camera:'',
            lineBytes yellow (baseUrl e @ ''/v/'' @ ''send'' @ ''?sid='' @ generateSID (rnd e))]
     \<and> tcpOut ?st2 (conn rc)
         = tcpOut st (conn rc) @
           [lineBytes yellow ''Open this URL to view the camera:'',
            lineBytes yellow (baseUrl e @ ''/v/'' @ ''view'' @ ''?sid='' @ generateSID (rnd e))]
     \<and> (\<forall>c. c \<noteq> conn cc \<and> c \<noteq> conn rc \<longrightarrow> tcpOut ?st2 c = tcpOut st c)"
    using assms(5) by (simp add: o2 o1 senderURL_def viewerURL_def)
  from rest g on outs v show ?thesis by blast
qed

theorem video_call_accept_witness:
  "tcpOut (handleVideoAccept env0 zohaibUser (handleVideoRequest bilalUser bothOnline)) 2
     = [lineBytes yellow ''bilal requests your camera. Type /acceptvideo or /declinevideo'',
        lineBytes yellow ''Video approved. Open this URL to share your camera:'',
        lineBytes yellow ''http://127.0.0.1:5001/v/send?sid=abcdefghijkl'']
   \<and> tcpOut (handleVideoAccept env0 zohaibUser (handleVideoRequest bilalUser bothOnline)) 1
     = [lineBytes yellow ''Open this URL to view the camera:'',
        lineBytes yellow ''http://127.0.0.1:5001/v/view?sid=abcdefghijkl'']
   \<and> tcpOut (handleVideoAccept (env0\<lparr>rnd := \<lambda>i. 61 + 3 * i\<rparr>) zohaibUser
               (handleVideoRequest bilalUser bothOnline)) 1
     = [lineBytes yellow ''Open this URL to view the camera:'',
        lineBytes yellow ''http://127.0.0.1:5001/v/view?sid=9cfiloruxADG'']
   \<and> generateSID (rnd (env0\<lparr>rnd := \<lambda>i. 61 + 3 * i\<rparr>)) ! 1 = CHR ''c''"
proof -
  have h: "clients bothOnline bilalUser = Some \<lparr>name = bilalUser, conn = 1\<rparr>"
    "clients bothOnline (peerOf bilalUser) = Some \<lparr>name = zohaibUser, conn = 2\<rparr>"
    "conn \<lparr>name = bilalUser, conn = 1\<rparr> \<notin> tcpClosed bothOnline"
    "conn \<lparr>name = zohaibUser, conn = 2\<rparr> \<notin> tcpClosed bothOnline"
    "conn \<lparr>name = bilalUser, conn = 1\<rparr> \<noteq> conn \<lparr>name = zohaibUser, conn = 2\<rparr>"
    by (simp_all add: bothOnline_simps)
  have l: "letters ! 2 = CHR ''c''" by (simp add: letters_def)
  from video_call_accept [OF h, of env0]
  have a: "tcpOut (handleVideoAccept env0 zohaibUser (handleVideoRequest bilalUser bothOnline)) 2
     = [lineBytes yellow ''bilal requests your camera. Type /acceptvideo or /declinevideo'',
        lineBytes yellow ''Video approved. Open this URL to share your camera:'',
        lineBytes yellow ''http://127.0.0.1:5001/v/send?sid=abcdefghijkl'']
   \<and> tcpOut (handleVideoAccept env0 zohaibUser (handleVideoRequest bilalUser bothOnline)) 1
     = [lineBytes yellow ''Open this URL to view the camera:'',
        lineBytes yellow ''http://127.0.0.1:5001/v/view?sid=abcdefghijkl'']"
    by (simp add: bothOnline_simps generateSID_id baseUrl_def) (simp add: bilalUser_def)
  from video_call_accept [OF h, of "env0\<lparr>rnd := \<lambda>i. 61 + 3 * i\<rparr>"]
  have b: "tcpOut (handleVideoAccept (env0\<lparr>rnd := \<lambda>i. 61 + 3 * i\<rparr>) zohaibUser
               (handleVideoRequest bilalUser bothOnline)) 1
     = [lineBytes yellow ''Open this URL to view the camera:'',
        lineBytes yellow ''http://127.0.0.1:5001/v/view?sid=9cfiloruxADG'']
   \<and> generateSID (rnd (env0\<lparr>rnd := \<lambda>i. 61 + 3 * i\<rparr>)) ! 1 = CHR ''c''"
    by (simp add: bothOnline_simps generateSID_wrap baseUrl_def env0_def l)
  from a b show ?thesis by blast
qed

section \<open>Properties of the signaling server\<close>

subsection \<open>Writes\<close>

lemma WriteJSON_closed [simp]: "wsClosed (WriteJSON c m net) = wsClosed net"
  by (simp add: WriteJSON_def)

lemma WriteJSON_out:
  "wsOut (WriteJSON c m net) =
     (if c \<in> wsClosed net then wsOut net else (wsOut net)(c := wsOut net c @ [m]))"
  by (simp add: WriteJSON_def)

lemma closeWS_fields [simp]:
  "wsClosed (closeWS c net) = insert c (wsClosed net)" "wsOut (closeWS c net) = wsOut net"
  by (simp_all add: closeWS_def)

lemma flushIce_closed [simp]: "wsClosed (flushIce c cands net) = wsClosed net"
  by (induction cands arbitrary: net) simp_all

lemma flushIce_out_open:
  "c \<notin> wsClosed net \<Longrightarrow>
   wsOut (flushIce c cands net) = (wsOut net)(c := wsOut net c @ map iceMsg cands)"
proof (induction cands arbitrary: net)
  case Nil
  then show ?case by simp
next
  case (Cons cand cands)
  then show ?case by (auto simp add: WriteJSON_out fun_eq_iff)
qed

subsection \<open>Attaching\<close>

lemma attachRole_sender:
  "attachRole ''sender'' c (ep, net) =
     (ep\<lparr>sender := Some c, answer := None, iceFromViewer := []\<rparr>,
      flushIce c (iceFromViewer ep)
        (case answer ep of
           None \<Rightarrow> (case sender ep of None \<Rightarrow> net | Some old \<Rightarrow> closeWS old net)
         | Some a \<Rightarrow> WriteJSON c (answerMsg a)
                      (case sender ep of None \<Rightarrow> net | Some old \<Rightarrow> closeWS old net)))"
  by (cases "answer ep") (simp_all add: attachRole_def Let_def)

lemma attachRole_viewer:
  "role \<noteq> ''sender'' \<Longrightarrow> attachRole role c (ep, net) =
     (ep\<lparr>viewer := Some c, offer := None, iceFromSender := []\<rparr>,
      flushIce c (iceFromSender ep)
        (case offer ep of
           None \<Rightarrow> (case viewer ep of None \<Rightarrow> net | Some old \<Rightarrow> closeWS old net)
         | Some a \<Rightarrow> WriteJSON c (offerMsg a)
                      (case viewer ep of None \<Rightarrow> net | Some old \<Rightarrow> closeWS old net)))"
  by (cases "offer ep") (simp_all add: attachRole_def Let_def)

text \<open>Claim C5. Attaching as sender clears the queued answer and the candidates queued by
  the viewer and leaves the queued offer and the sender's own candidates alone; attaching
  as viewer clears the queued offer and the candidates queued by the sender and leaves the
  answer alone. An open connection that attaches receives, after what it had received,
  the queued answer (sender) or offer (viewer), if any, and then the candidates of its
  direction in the order in which they were queued. A second attach in the same role
  writes nothing to any connection.\<close>

theorem attach_flushes_queue:
  "fst (attachRole ''sender'' c (ep, net)) = ep\<lparr>sender := Some c, answer := None, iceFromViewer := []\<rparr>
   \<and> fst (attachRole ''viewer'' c (ep, net)) = ep\<lparr>viewer := Some c, offer := None, iceFromSender := []\<rparr>
   \<and> (c \<notin> wsClosed net \<and> sender ep \<noteq> Some c \<longrightarrow>
        wsOut (snd (attachRole ''sender'' c (ep, net))) =
          (wsOut net)(c := wsOut net c
             @ (case answer ep of None \<Rightarrow> [] | Some a \<Rightarrow> [answerMsg a])
             @ map iceMsg (iceFromViewer ep)))
   \<and> (c \<notin> wsClosed net \<and> viewer ep \<noteq> Some c \<longrightarrow>
        wsOut (snd (attachRole ''viewer'' c (ep, net))) =
          (wsOut net)(c := wsOut net c
             @ (case offer ep of None \<Rightarrow> [] | Some a \<Rightarrow> [offerMsg a])
             @ map iceMsg (iceFromSender ep)))
   \<and> wsOut (snd (attachRole ''sender'' c2 (attachRole ''sender'' c (ep, net))))
       = wsOut (snd (attachRole ''sender'' c (ep, net)))
   \<and> wsOut (snd (attachRole ''viewer'' c2 (attachRole ''viewer'' c (ep, net))))
       = wsOut (snd (attachRole ''viewer'' c (ep, net)))"
proof (intro conjI impI)
  show "fst (attachRole ''sender'' c (ep, net)) = ep\<lparr>sender := Some c, answer := None, iceFromViewer := []\<rparr>"
    by (simp add: attachRole_sender)
  show "fst (attachRole ''viewer'' c (ep, net)) = ep\<lparr>viewer := Some c, offer := None, iceFromSender := []\<rparr>"
    by (simp add: attachRole_viewer)
next
  assume a: "c \<notin> wsClosed net \<and> sender ep \<noteq> Some c"
  let ?net1 = "case sender ep of None \<Rightarrow> net | Some old \<Rightarrow> closeWS old net"
  from a have o: "c \<notin> wsClosed ?net1" and w: "wsOut ?net1 = wsOut net"
    by (auto split: option.splits)
  show "wsOut (snd (attachRole ''sender'' c (ep, net))) =
          (wsOut net)(c := wsOut net c
             @ (case answer ep of None \<Rightarrow> [] | Some a \<Rightarrow> [answerMsg a])
             @ map iceMsg (iceFromViewer ep))"
  proof (cases "answer ep")
    case None
    with o w show ?thesis by (simp add: attachRole_sender flushIce_out_open)
  next
    case (Some a)
    with o w show ?thesis
      by (simp add: attachRole_sender flushIce_out_open WriteJSON_out)
  qed
next
  assume a: "c \<notin> wsClosed net \<and> viewer ep \<noteq> Some c"
  let ?net1 = "case viewer ep of None \<Rightarrow> net | Some old \<Rightarrow> closeWS old net"
  from a have o: "c \<notin> wsClosed ?net1" and w: "wsOut ?net1 = wsOut net"
    by (auto split: option.splits)
  show "wsOut (snd (attachRole ''viewer'' c (ep, net))) =
          (wsOut net)(c := wsOut net c
             @ (case offer ep of None \<Rightarrow> [] | Some a \<Rightarrow> [offerMsg a])
             @ map iceMsg (iceFromSender ep))"
  proof (cases "offer ep")
    case None
    with o w show ?thesis by (simp add: attachRole_viewer flushIce_out_open)
  next
    case (Some a)
    with o w show ?thesis
      by (simp add: attachRole_viewer flushIce_out_open WriteJSON_out)
  qed
next
  show "wsOut (snd (attachRole ''sender'' c2 (attachRole ''sender'' c (ep, net))))
       = wsOut (snd (attachRole ''sender'' c (ep, net)))"
    by (simp add: attachRole_sender)
  show "wsOut (snd (attachRole ''viewer'' c2 (attachRole ''viewer'' c (ep, net))))
       = wsOut (snd (attachRole ''viewer'' c (ep, net)))"
    by (simp add: attachRole_viewer)
qed

theorem attach_flushes_queue_witness:
  "wsOut (snd (attachRole ''viewer'' 2 (queuedBoth, net0))) 2
     = [offerMsg ''o1'', iceMsg ''s1'', iceMsg ''s2'']
   \<and> wsOut (snd (attachRole ''sender'' 1 (queuedBoth, net0))) 1
     = [answerMsg ''a1'', iceMsg ''v1'']
   \<and> fst (attachRole ''viewer'' 2 (queuedBoth, net0))
     = \<lparr>sender = None, viewer = Some 2, offer = None, answer = Some ''a1'',
         iceFromSender = [], iceFromViewer = [''v1'']\<rparr>
   \<and> wsOut (snd (attachRole ''viewer'' 3 (attachRole ''viewer'' 2 (queuedBoth, net0)))) 3 = []"
  using attach_flushes_queue [of 2 queuedBoth net0 3] attach_flushes_queue [of 1 queuedBoth net0 3]
  by (simp add: queuedBoth_def net0_def)

subsection \<open>Routing\<close>

lemma route_sender_unattached:
  "viewer ep = None \<Longrightarrow>
   route ''sender'' m (ep, net) =
     (if Type m = ''offer'' then (ep\<lparr>offer := Some (SDP m)\<rparr>, net)
      else if Type m = ''ice'' then (ep\<lparr>iceFromSender := iceFromSender ep @ [Cand m]\<rparr>, net)
      else (ep, net))"
  by (simp add: route_def)

lemma route_viewer_unattached:
  "sender ep = None \<Longrightarrow>
   route ''viewer'' m (ep, net) =
     (if Type m = ''answer'' then (ep\<lparr>answer := Some (SDP m)\<rparr>, net)
      else if Type m = ''ice'' then (ep\<lparr>iceFromViewer := iceFromViewer ep @ [Cand m]\<rparr>, net)
      else (ep, net))"
  by (simp add: route_def)

lemma relay_sender_unattached:
  "viewer ep = None \<Longrightarrow>
   relay ''sender'' c (map Parsed ms) (ep, net) =
     (ep\<lparr>offer := latest ''offer'' ms (offer ep),
         iceFromSender := iceFromSender ep @ map Cand (filter (\<lambda>m. Type m = ''ice'') ms)\<rparr>, net)"
proof (induction ms arbitrary: ep)
  case Nil
  then show ?case by (simp add: latest_def)
next
  case (Cons m ms)
  note v = Cons.prems
  show ?case
  proof (cases "Type m = ''offer''")
    case True
    have "viewer (ep\<lparr>offer := Some (SDP m)\<rparr>) = None" using v by simp
    from Cons.IH[OF this] True v show ?thesis
      by (simp add: route_sender_unattached latest_def)
  next
    case False
    show ?thesis
    proof (cases "Type m = ''ice''")
      case True
      have "viewer (ep\<lparr>iceFromSender := iceFromSender ep @ [Cand m]\<rparr>) = None" using v by simp
      from Cons.IH[OF this] True v show ?thesis
        by (simp add: route_sender_unattached latest_def)
    next
      case False
      with \<open>Type m \<noteq> ''offer''\<close> Cons.IH[OF v] v show ?thesis
        by (simp add: route_sender_unattached latest_def)
    qed
  qed
qed

lemma relay_viewer_unattached:
  "sender ep = None \<Longrightarrow>
   relay ''viewer'' c (map Parsed ms) (ep, net) =
     (ep\<lparr>answer := latest ''answer'' ms (answer ep),
         iceFromViewer := iceFromViewer ep @ map Cand (filter (\<lambda>m. Type m = ''ice'') ms)\<rparr>, net)"
proof (induction ms arbitrary: ep)
  case Nil
  then show ?case by (simp add: latest_def)
next
  case (Cons m ms)
  note v = Cons.prems
  show ?case
  proof (cases "Type m = ''answer''")
    case True
    have "sender (ep\<lparr>answer := Some (SDP m)\<rparr>) = None" using v by simp
    from Cons.IH[OF this] True v show ?thesis
      by (simp add: route_viewer_unattached latest_def)
  next
    case False
    show ?thesis
    proof (cases "Type m = ''ice''")
      case True
      have "sender (ep\<lparr>iceFromViewer := iceFromViewer ep @ [Cand m]\<rparr>) = None" using v by simp
      from Cons.IH[OF this] True v show ?thesis
        by (simp add: route_viewer_unattached latest_def)
    next
      case False
      with \<open>Type m \<noteq> ''answer''\<close> Cons.IH[OF v] v show ?thesis
        by (simp add: route_viewer_unattached latest_def)
    qed
  qed
qed

lemma latest_append_hit: "Type m = ty \<Longrightarrow> latest ty (ms @ [m]) old = Some (SDP m)"
  by (simp add: latest_def)

text \<open>Claim C2. While the viewer is unattached, an offer from the sender replaces the queued
  offer and a candidate from the sender is appended to the sender's list; while the sender
  is unattached, an answer from the viewer replaces the queued answer and a candidate from
  the viewer is appended to the viewer's list; nothing is written and nothing else
  changes. Over any sequence of frames received from one role while the other is
  unattached, the slot ends with the value of the last offer (answer) and the list with
  the candidates in the order of arrival.\<close>

theorem route_queues_when_unattached:
  "(viewer ep = None \<and> Type m = ''offer'' \<longrightarrow>
      route ''sender'' m (ep, net) = (ep\<lparr>offer := Some (SDP m)\<rparr>, net))
   \<and> (sender ep = None \<and> Type m = ''answer'' \<longrightarrow>
      route ''viewer'' m (ep, net) = (ep\<lparr>answer := Some (SDP m)\<rparr>, net))
   \<and> (viewer ep = None \<and> Type m = ''ice'' \<longrightarrow>
      route ''sender'' m (ep, net) = (ep\<lparr>iceFromSender := iceFromSender ep @ [Cand m]\<rparr>, net))
   \<and> (sender ep = None \<and> Type m = ''ice'' \<longrightarrow>
      route ''viewer'' m (ep, net) = (ep\<lparr>iceFromViewer := iceFromViewer ep @ [Cand m]\<rparr>, net))
   \<and> (viewer ep = None \<longrightarrow>
      relay ''sender'' c (map Parsed ms) (ep, net) =
        (ep\<lparr>offer := latest ''offer'' ms (offer ep),
            iceFromSender := iceFromSender ep @ map Cand (filter (\<lambda>m. Type m = ''ice'') ms)\<rparr>, net))
   \<and> (sender ep = None \<longrightarrow>
      relay ''viewer'' c (map Parsed ms) (ep, net) =
        (ep\<lparr>answer := latest ''answer'' ms (answer ep),
            iceFromViewer := iceFromViewer ep @ map Cand (filter (\<lambda>m. Type m = ''ice'') ms)\<rparr>, net))
   \<and> (Type m = ty \<longrightarrow> latest ty (ms @ [m]) old = Some (SDP m))"
  by (simp add: route_sender_unattached route_viewer_unattached relay_sender_unattached
        relay_viewer_unattached latest_append_hit)

theorem route_queues_when_unattached_witness:
  "relay ''sender'' 1 [Parsed (offerMsg ''o1''), Parsed (iceMsg ''s1''), Parsed (offerMsg ''o2''),
                       Parsed (iceMsg ''s2'')] (senderOnly, net0)
     = (senderOnly\<lparr>offer := Some ''o2'', iceFromSender := [''s1'', ''s2'']\<rparr>, net0)
   \<and> route ''viewer'' (answerMsg ''a1'') (emptyEndpoint, net0)
     = (emptyEndpoint\<lparr>answer := Some ''a1''\<rparr>, net0)"
proof -
  let ?ms = "[offerMsg ''o1'', iceMsg ''s1'', offerMsg ''o2'', iceMsg ''s2'']"
  have v: "viewer senderOnly = None" "sender emptyEndpoint = None"
    "Type (answerMsg ''a1'') = ''answer''" "SDP (answerMsg ''a1'') = ''a1''"
    by (simp_all add: senderOnly_def emptyEndpoint_def answerMsg_def)
  have l: "latest ''offer'' ?ms (offer senderOnly) = Some ''o2''"
    by (simp add: latest_def offerMsg_def iceMsg_def)
  have f: "iceFromSender senderOnly @ map Cand (filter (\<lambda>m. Type m = ''ice'') ?ms) = [''s1'', ''s2'']"
    by (simp add: senderOnly_def emptyEndpoint_def offerMsg_def iceMsg_def)
  have p: "map Parsed ?ms = [Parsed (offerMsg ''o1''), Parsed (iceMsg ''s1''),
                            Parsed (offerMsg ''o2''), Parsed (iceMsg ''s2'')]"
    by simp
  from route_queues_when_unattached [of senderOnly "offerMsg ''o1''" net0 1 ?ms] v
  have "relay ''sender'' 1 (map Parsed ?ms) (senderOnly, net0) =
        (senderOnly\<lparr>offer := latest ''offer'' ?ms (offer senderOnly),
            iceFromSender := iceFromSender senderOnly @ map Cand (filter (\<lambda>m. Type m = ''ice'') ?ms)\<rparr>, net0)"
    by blast
  then have a: "relay ''sender'' 1 [Parsed (offerMsg ''o1''), Parsed (iceMsg ''s1''),
                   Parsed (offerMsg ''o2''), Parsed (iceMsg ''s2'')] (senderOnly, net0)
     = (senderOnly\<lparr>offer := Some ''o2'', iceFromSender := [''s1'', ''s2'']\<rparr>, net0)"
    unfolding l f p .
  from route_queues_when_unattached [of emptyEndpoint "answerMsg ''a1''" net0 1 "[]"] v
  have b: "route ''viewer'' (answerMsg ''a1'') (emptyEndpoint, net0)
     = (emptyEndpoint\<lparr>answer := Some (SDP (answerMsg ''a1''))\<rparr>, net0)"
    by blast
  from a b show ?thesis unfolding v by (rule conjI)
qed

text \<open>Claim C6. A frame whose type is none of offer, answer and ice, an offer that does not
  come from the sender, and an answer that does not come from the viewer leave the session
  and every connection as they were: nothing is written and nothing is queued.\<close>

theorem route_discards_invalid:
  "(Type m \<noteq> ''offer'' \<and> Type m \<noteq> ''answer'' \<and> Type m \<noteq> ''ice'' \<longrightarrow>
      route role m (ep, net) = (ep, net))
   \<and> (Type m = ''offer'' \<and> role \<noteq> ''sender'' \<longrightarrow> route role m (ep, net) = (ep, net))
   \<and> (Type m = ''answer'' \<and> role \<noteq> ''viewer'' \<longrightarrow> route role m (ep, net) = (ep, net))"
  by (simp add: route_def Let_def)

theorem route_discards_invalid_witness:
  "route ''sender'' \<lparr>Type = ''bye'', SDP = ''x'', Cand = []\<rparr> (queuedBoth, net0) = (queuedBoth, net0)
   \<and> route ''viewer'' (offerMsg ''o9'') (senderOnly, net0) = (senderOnly, net0)
   \<and> route ''sender'' (answerMsg ''a9'') (queuedBoth, net0) = (queuedBoth, net0)"
  using route_discards_invalid [of "\<lparr>Type = ''bye'', SDP = ''x'', Cand = []\<rparr>" "''sender''" queuedBoth net0]
        route_discards_invalid [of "offerMsg ''o9''" "''viewer''" senderOnly net0]
        route_discards_invalid [of "answerMsg ''a9''" "''sender''" queuedBoth net0]
  by (simp add: offerMsg_def answerMsg_def)

subsection \<open>The relay of \<^verbatim>\<open>video/singnaling.go\<close>\<close>

lemma forwardPlain_unattached:
  "(if role = ''sender'' then viewer ep else sender ep) = None \<Longrightarrow>
   forwardPlain role m (ep, net) = (ep, net)"
  by (simp add: forwardPlain_def)

lemma forwardPlain_attached:
  "(if role = ''sender'' then viewer ep else sender ep) = Some d \<Longrightarrow>
   forwardPlain role m (ep, net) = (ep, WriteJSON d m net)"
  by (simp add: forwardPlain_def)

subsection \<open>Frames that do not decode, frames that lack fields\<close>

lemma ws_rejects:
  "first = ReadError \<or> first = Unparseable
     \<or> (first = Parsed hi \<and> ((Role hi \<noteq> ''sender'' \<and> Role hi \<noteq> ''viewer'') \<or> SID hi = []))
   \<Longrightarrow> ws c first (srv, net) = (None, srv, closeWS c net)"
  by (auto simp: ws_def)

lemma relay_read_failure:
  "f = ReadError \<or> f = Unparseable \<Longrightarrow> relay role c (f # fs) s = detachRole role c s"
  by auto

lemma detachRole_eq:
  "detachRole role c (ep, net) =
     (ep\<lparr>sender := (if role = ''sender'' \<and> sender ep = Some c then None else sender ep),
         viewer := (if role = ''viewer'' \<and> viewer ep = Some c then None else viewer ep)\<rparr>,
      closeWS c net)"
  by (simp add: detachRole_def Let_def)

lemma route_keeps_connections:
  "wsClosed (snd (route role m (ep, net))) = wsClosed net
   \<and> sender (fst (route role m (ep, net))) = sender ep
   \<and> viewer (fst (route role m (ep, net))) = viewer ep"
  by (simp add: route_def Let_def split: option.splits)

text \<open>Claim C7, as the code has it. A handshake whose read fails, whose bytes do not
  decode, whose role is neither sender nor viewer, or whose sid is empty closes the
  connection and changes nothing else: no session record is created. In the relay loop a
  read failure or bytes that do not decode end the loop: the connection is closed, its own
  role slot is cleared if it still holds this connection, and nothing else changes. A frame
  that decodes, whatever fields it lacks, closes no connection and clears no role slot.\<close>

theorem malformed_frame_handling:
  "(first = ReadError \<or> first = Unparseable
      \<or> (first = Parsed hi \<and> ((Role hi \<noteq> ''sender'' \<and> Role hi \<noteq> ''viewer'') \<or> SID hi = []))
     \<longrightarrow> ws c first (srv, net) = (None, srv, closeWS c net))
   \<and> (f = ReadError \<or> f = Unparseable \<longrightarrow>
        relay role c (f # fs) (ep, net) =
          (ep\<lparr>sender := (if role = ''sender'' \<and> sender ep = Some c then None else sender ep),
              viewer := (if role = ''viewer'' \<and> viewer ep = Some c then None else viewer ep)\<rparr>,
           closeWS c net))
   \<and> wsClosed (snd (route role m (ep, net))) = wsClosed net
   \<and> sender (fst (route role m (ep, net))) = sender ep
   \<and> viewer (fst (route role m (ep, net))) = viewer ep"
proof (intro conjI impI)
  assume "first = ReadError \<or> first = Unparseable
      \<or> (first = Parsed hi \<and> ((Role hi \<noteq> ''sender'' \<and> Role hi \<noteq> ''viewer'') \<or> SID hi = []))"
  then show "ws c first (srv, net) = (None, srv, closeWS c net)" by (rule ws_rejects)
next
  assume "f = ReadError \<or> f = Unparseable"
  then have "relay role c (f # fs) (ep, net) = detachRole role c (ep, net)"
    by (rule relay_read_failure)
  then show "relay role c (f # fs) (ep, net) =
          (ep\<lparr>sender := (if role = ''sender'' \<and> sender ep = Some c then None else sender ep),
              viewer := (if role = ''viewer'' \<and> viewer ep = Some c then None else viewer ep)\<rparr>,
           closeWS c net)"
    by (simp only: detachRole_eq)
qed (simp_all only: route_keeps_connections)

theorem malformed_frame_handling_witness:
  "ws 5 (Parsed \<lparr>Role = ''admin'', SID = ''abc''\<rparr>) (srv0, net0) = (None, srv0, closeWS 5 net0)
   \<and> ws 5 (Parsed \<lparr>Role = ''viewer'', SID = []\<rparr>) (srv0, net0) = (None, srv0, closeWS 5 net0)
   \<and> relay ''sender'' 1 [Unparseable] (senderOnly\<lparr>offer := Some ''o1''\<rparr>, net0)
       = (emptyEndpoint\<lparr>offer := Some ''o1''\<rparr>, closeWS 1 net0)"
  using malformed_frame_handling [where first = "Parsed \<lparr>Role = ''admin'', SID = ''abc''\<rparr>"
          and hi = "\<lparr>Role = ''admin'', SID = ''abc''\<rparr>" and c = 5 and srv = srv0 and net = net0]
        malformed_frame_handling [where first = "Parsed \<lparr>Role = ''viewer'', SID = []\<rparr>"
          and hi = "\<lparr>Role = ''viewer'', SID = []\<rparr>" and c = 5 and srv = srv0 and net = net0]
        malformed_frame_handling [where f = Unparseable and role = "''sender''" and c = 1
          and fs = "[]" and ep = "senderOnly\<lparr>offer := Some ''o1''\<rparr>" and net = net0]
  by (simp add: senderOnly_def emptyEndpoint_def)

text \<open>Claim C7, as stated, on the code. The sender, attached on websocket 1, sends a frame
  that decodes but lacks the field \<^verbatim>\<open>sdp\<close>, and then a frame that lacks the field
  \<^verbatim>\<open>type\<close>: the connection is not closed and stays attached, and the first frame has
  been queued as an offer with the empty description.\<close>

theorem relay_frame_lacking_fields_counterexample:
  "1 \<notin> wsClosed (snd (relay ''sender'' 1
           [Parsed \<lparr>Type = ''offer'', SDP = [], Cand = []\<rparr>, Parsed \<lparr>Type = [], SDP = [], Cand = []\<rparr>]
           (senderOnly, net0)))
   \<and> fst (relay ''sender'' 1
           [Parsed \<lparr>Type = ''offer'', SDP = [], Cand = []\<rparr>, Parsed \<lparr>Type = [], SDP = [], Cand = []\<rparr>]
           (senderOnly, net0))
       = senderOnly\<lparr>offer := Some []\<rparr>
   \<and> sender (senderOnly\<lparr>offer := Some []\<rparr>) = Some 1
   \<and> senderOnly\<lparr>offer := Some []\<rparr> \<noteq> senderOnly"
  by (simp add: route_def senderOnly_def emptyEndpoint_def net0_def)

end
